theory Spec2Isabelle
  imports Main
begin

section \<open>Identifiers, errors and configuration\<close>

text \<open>
  The hub of the chat backend: \<^verbatim>\<open>app/sockets/events.py\<close> (the Socket.IO handlers),
  \<^verbatim>\<open>app/database/redis_client.py\<close> (the ephemeral store), \<^verbatim>\<open>app/middleware/auth.py\<close>
  (the handshake token) and the services of \<^verbatim>\<open>app/services\<close>. Every identifier of the
  source is a Python \<^verbatim>\<open>str\<close>.
\<close>

type_synonym user_id = string
type_synonym socket_id = string
type_synonym room_id = string
type_synonym message_id = string
type_synonym timestamp = nat

text \<open>The exceptions the source itself provokes, as values.\<close>

datatype py_error =
    TypeError string
  | AttributeError string
  | APIError string
  | ResponseError string

definition str_of_error :: "py_error \<Rightarrow> string" where
  \<comment> \<open>\<^verbatim>\<open>str(e)\<close>\<close>
  "str_of_error e =
     (case e of TypeError s \<Rightarrow> s | AttributeError s \<Rightarrow> s | APIError s \<Rightarrow> s
      | ResponseError s \<Rightarrow> s)"

text \<open>
  \<^verbatim>\<open>app/config.py\<close>: the settings the hub reads. The values come from the environment;
  \<open>default_settings\<close> are the defaults of the class.
\<close>

record settings =
  MAX_MESSAGES_PER_MINUTE :: int
  MESSAGE_QUEUE_RETENTION :: int
  TYPING_TIMEOUT :: int

definition default_settings :: settings where
  "default_settings =
     \<lparr>MAX_MESSAGES_PER_MINUTE = 30, MESSAGE_QUEUE_RETENTION = 86400, TYPING_TIMEOUT = 10\<rparr>"

section \<open>The ephemeral store\<close>

text \<open>
  A Redis key holds a value and, when one was set, the seconds it has left to live.
  One table stands for one family of keys (\<^verbatim>\<open>ratelimit:{user_id}\<close>, \<^verbatim>\<open>queue:{user_id}\<close>,
  ...), indexed by what the source interpolates into the key.
\<close>

type_synonym ('k, 'v) rtable = "'k \<Rightarrow> ('v \<times> nat option) option"

definition r_get :: "('k, 'v) rtable \<Rightarrow> 'k \<Rightarrow> 'v option" where
  "r_get t k = map_option fst (t k)"

definition r_exists :: "('k, 'v) rtable \<Rightarrow> 'k \<Rightarrow> bool" where
  "r_exists t k = (t k \<noteq> None)"

definition r_setex :: "('k, 'v) rtable \<Rightarrow> 'k \<Rightarrow> nat \<Rightarrow> 'v \<Rightarrow> ('k, 'v) rtable" where
  \<comment> \<open>\<^verbatim>\<open>SETEX\<close> with a positive time. Redis refuses a time that is not positive: a caller
      whose time is not a literal checks it first.\<close>
  "r_setex t k ttl v = t(k \<mapsto> (v, Some ttl))"

definition r_delete :: "('k, 'v) rtable \<Rightarrow> 'k \<Rightarrow> ('k, 'v) rtable" where
  "r_delete t k = t(k := None)"

definition r_expire :: "('k, 'v) rtable \<Rightarrow> 'k \<Rightarrow> int \<Rightarrow> ('k, 'v) rtable" where
  \<comment> \<open>\<^verbatim>\<open>EXPIRE\<close> with a time that is not positive deletes the key.\<close>
  "r_expire t k ttl =
     (case t k of
        None \<Rightarrow> t
      | Some (v, _) \<Rightarrow> if ttl \<le> 0 then t(k := None) else t(k \<mapsto> (v, Some (nat ttl))))"

definition r_incr :: "('k, int) rtable \<Rightarrow> 'k \<Rightarrow> ('k, int) rtable" where
  "r_incr t k = (case t k of None \<Rightarrow> t(k \<mapsto> (1, None)) | Some (n, e) \<Rightarrow> t(k \<mapsto> (n + 1, e)))"

definition r_lpush :: "('k, 'v list) rtable \<Rightarrow> 'k \<Rightarrow> 'v \<Rightarrow> ('k, 'v list) rtable" where
  "r_lpush t k x = (case t k of None \<Rightarrow> t(k \<mapsto> ([x], None)) | Some (xs, e) \<Rightarrow> t(k \<mapsto> (x # xs, e)))"

definition r_lrange_all :: "('k, 'v list) rtable \<Rightarrow> 'k \<Rightarrow> 'v list" where
  \<comment> \<open>\<^verbatim>\<open>lrange(key, 0, -1)\<close>: the whole list, head first; a missing key reads as empty.\<close>
  "r_lrange_all t k = (case t k of None \<Rightarrow> [] | Some (xs, _) \<Rightarrow> xs)"

definition r_sadd :: "('k, 'v set) rtable \<Rightarrow> 'k \<Rightarrow> 'v list \<Rightarrow> ('k, 'v set) rtable" where
  "r_sadd t k xs = (case t k of None \<Rightarrow> t(k \<mapsto> (set xs, None)) | Some (s, e) \<Rightarrow> t(k \<mapsto> (s \<union> set xs, e)))"

definition r_srem :: "('k, 'v set) rtable \<Rightarrow> 'k \<Rightarrow> 'v \<Rightarrow> ('k, 'v set) rtable" where
  \<comment> \<open>Redis drops a set key with its last member.\<close>
  "r_srem t k x =
     (case t k of None \<Rightarrow> t
      | Some (s, e) \<Rightarrow> if s - {x} = {} then t(k := None) else t(k \<mapsto> (s - {x}, e)))"

definition r_smembers :: "('k, 'v set) rtable \<Rightarrow> 'k \<Rightarrow> 'v set" where
  "r_smembers t k = (case t k of None \<Rightarrow> {} | Some (s, _) \<Rightarrow> s)"


text \<open>
  What the hub keeps in Redis (\<^verbatim>\<open>RedisClient\<close>), one table per key prefix. A queued
  envelope is stored as \<^verbatim>\<open>json.dumps\<close> wrote it and read back with \<^verbatim>\<open>json.loads\<close>, which
  returns the envelope that was written: the table holds the envelope.
\<close>

record claims =
  sub :: "string option"
  email :: "string option"
  role :: "string option"

record user_data =
  ud_user_id :: user_id
  ud_email :: "string option"
  ud_role :: "string option"
  ud_payload :: claims

record message_row =
  m_id :: message_id
  m_room_id :: room_id
  m_sender_id :: user_id
  m_content :: "string option"
  m_message_type :: string
  m_reply_to :: "string option"
  m_is_edited :: bool
  m_is_deleted :: bool
  m_created_at :: timestamp
  m_updated_at :: timestamp

record sender_info =
  sender_username :: "string option"
  sender_display_name :: "string option"
  sender_avatar :: "string option"

text \<open>
  The message dict the handlers pass around: the row the repository returned and, when
  the sender's profile was found, the three \<^verbatim>\<open>sender_*\<close> keys added to it.
\<close>

record envelope =
  e_row :: message_row
  e_sender :: "sender_info option"

record redis_store =
  session_tab :: "(user_id \<times> socket_id, string) rtable"
  presence_tab :: "(user_id, string) rtable"
  queue_tab :: "(user_id, envelope list) rtable"
  ratelimit_tab :: "(user_id, int) rtable"
  typing_tab :: "(room_id, user_id set) rtable"
  room_members_tab :: "(room_id, user_id set) rtable"


subsection \<open>Sessions\<close>

definition json_dump :: "user_data \<Rightarrow> py_error + string" where
  \<comment> \<open>\<^verbatim>\<open>json.dump(data)\<close>: the function that writes to a file, called without the file.\<close>
  "json_dump d = Inl (TypeError ''dump() missing 1 required positional argument: fp'')"

definition set_user_session ::
  "user_id \<Rightarrow> socket_id \<Rightarrow> user_data \<Rightarrow> nat \<Rightarrow> redis_store \<Rightarrow> py_error + redis_store" where
  \<comment> \<open>The argument \<^verbatim>\<open>json.dump(data)\<close> is evaluated before \<^verbatim>\<open>setex\<close> is called.\<close>
  "set_user_session user_id socket_id d ttl r =
     (case json_dump d of
        Inl e \<Rightarrow> Inl e
      | Inr s \<Rightarrow> Inr (r\<lparr>session_tab := r_setex (session_tab r) (user_id, socket_id) ttl s\<rparr>))"

definition delete_user_session :: "user_id \<Rightarrow> socket_id \<Rightarrow> redis_store \<Rightarrow> redis_store" where
  "delete_user_session user_id socket_id r =
     r\<lparr>session_tab := r_delete (session_tab r) (user_id, socket_id)\<rparr>"

subsection \<open>Presence\<close>

definition set_user_online :: "user_id \<Rightarrow> string \<Rightarrow> redis_store \<Rightarrow> redis_store" where
  "set_user_online user_id status r =
     r\<lparr>presence_tab := r_setex (presence_tab r) user_id 300 status\<rparr>"

definition set_user_offline :: "user_id \<Rightarrow> redis_store \<Rightarrow> redis_store" where
  "set_user_offline user_id r = r\<lparr>presence_tab := r_delete (presence_tab r) user_id\<rparr>"

definition is_user_online :: "user_id \<Rightarrow> redis_store \<Rightarrow> bool" where
  "is_user_online user_id r = r_exists (presence_tab r) user_id"

subsection \<open>The queue of undelivered messages\<close>

definition queue_message :: "settings \<Rightarrow> user_id \<Rightarrow> envelope \<Rightarrow> redis_store \<Rightarrow> redis_store" where
  "queue_message cf user_id message_data r =
     r\<lparr>queue_tab :=
         r_expire (r_lpush (queue_tab r) user_id message_data) user_id
           (MESSAGE_QUEUE_RETENTION cf)\<rparr>"

definition get_queued_messages :: "user_id \<Rightarrow> redis_store \<Rightarrow> envelope list \<times> redis_store" where
  "get_queued_messages user_id r =
     (let messages = r_lrange_all (queue_tab r) user_id
      in (messages, r\<lparr>queue_tab := r_delete (queue_tab r) user_id\<rparr>))"

subsection \<open>Rate limiting\<close>

text \<open>
  \<^verbatim>\<open>check_rate_limit\<close> awaits Redis twice: it reads the counter (\<^verbatim>\<open>get\<close>), and then, with the
  value it read, writes (\<^verbatim>\<open>setex\<close> or \<^verbatim>\<open>incr\<close>) or returns. Another task can run between the
  two, so the function is the composition of two steps of the store. \<^verbatim>\<open>setex\<close> with a window
  that is not positive is refused by Redis, and the client raises.
\<close>

definition check_rate_limit_get :: "user_id \<Rightarrow> redis_store \<Rightarrow> int option" where
  \<comment> \<open>\<^verbatim>\<open>current = await self.redis.get(key)\<close>\<close>
  "check_rate_limit_get user_id r = r_get (ratelimit_tab r) user_id"

definition check_rate_limit_rest ::
  "user_id \<Rightarrow> int \<Rightarrow> int \<Rightarrow> int option \<Rightarrow> redis_store \<Rightarrow> (py_error + bool) \<times> redis_store" where
  \<comment> \<open>The function from \<^verbatim>\<open>if current is None\<close> on, with the value that was read.\<close>
  "check_rate_limit_rest user_id limit window current r =
     (case current of
        None \<Rightarrow>
          if window \<le> 0 then (Inl (ResponseError ''invalid expire time in setex''), r)
          else (Inr True, r\<lparr>ratelimit_tab := r_setex (ratelimit_tab r) user_id (nat window) 1\<rparr>)
      | Some c \<Rightarrow>
          if c \<ge> limit then (Inr False, r)
          else (Inr True, r\<lparr>ratelimit_tab := r_incr (ratelimit_tab r) user_id\<rparr>))"

definition check_rate_limit ::
  "user_id \<Rightarrow> int \<Rightarrow> int \<Rightarrow> redis_store \<Rightarrow> (py_error + bool) \<times> redis_store" where
  \<comment> \<open>One call with no other task between its two steps.\<close>
  "check_rate_limit user_id limit window r =
     check_rate_limit_rest user_id limit window (check_rate_limit_get user_id r) r"

subsection \<open>Typing indicators\<close>

definition set_typing :: "room_id \<Rightarrow> user_id \<Rightarrow> int \<Rightarrow> redis_store \<Rightarrow> redis_store" where
  "set_typing room user_id ttl r =
     r\<lparr>typing_tab := r_expire (r_sadd (typing_tab r) room [user_id]) room ttl\<rparr>"

definition remove_typing :: "room_id \<Rightarrow> user_id \<Rightarrow> redis_store \<Rightarrow> redis_store" where
  "remove_typing room user_id r = r\<lparr>typing_tab := r_srem (typing_tab r) room user_id\<rparr>"

subsection \<open>The cache of room members\<close>

definition cache_room_members :: "room_id \<Rightarrow> user_id list \<Rightarrow> int \<Rightarrow> redis_store \<Rightarrow> redis_store" where
  "cache_room_members room member_ids ttl r =
     (let t = r_delete (room_members_tab r) room
      in r\<lparr>room_members_tab :=
            (if member_ids \<noteq> [] then r_expire (r_sadd t room member_ids) room ttl else t)\<rparr>)"

definition get_cached_room_members :: "room_id \<Rightarrow> redis_store \<Rightarrow> user_id set option" where
  \<comment> \<open>\<^verbatim>\<open>list(smembers(key))\<close> when the key exists: the order of that list is not used.\<close>
  "get_cached_room_members room r =
     (if r_exists (room_members_tab r) room then Some (r_smembers (room_members_tab r) room)
      else None)"

section \<open>The repository\<close>

text \<open>
  The tables of the relational store the hub reads and writes through the Supabase
  client, as lists of rows in insertion order. \<^verbatim>\<open>create_message\<close> reads the sender from
  a relation named \<^verbatim>\<open>profile\<close>, every other path from \<^verbatim>\<open>profiles\<close>; the schema is not part
  of the sources, so the relation \<^verbatim>\<open>profile\<close> is a field of its own: \<open>None\<close> when the
  store has no relation of that name (the request then raises).
\<close>

record profile_row =
  p_id :: user_id
  p_username :: "string option"
  p_display_name :: "string option"
  p_avatar_url :: "string option"
  p_status :: string
  p_last_seen :: timestamp

record notification_row =
  n_user_id :: user_id
  n_title :: string
  n_body :: "string option"
  n_notification_type :: string
  n_reference_id :: "string option"
  n_is_read :: bool

record database =
  messages :: "message_row list"
  room_members :: "(room_id \<times> user_id) list"
  profiles :: "profile_row list"
  profile :: "profile_row list option"
  notifications :: "notification_row list"

text \<open>
  A request of the query builder: \<^verbatim>\<open>db.table(t).insert(row)\<close> builds it, \<^verbatim>\<open>.execute()\<close>
  sends it and returns the response with its \<^verbatim>\<open>data\<close>. The builder itself has no
  attribute \<^verbatim>\<open>data\<close>.
\<close>

datatype 'row request = InsertRequest 'row

definition request_data :: "'row request \<Rightarrow> py_error + 'row list" where
  "request_data q = Inl (AttributeError ''request builder has no attribute data'')"

subsection \<open>\<^verbatim>\<open>PresenceService\<close>\<close>

definition update_profile_status :: "user_id \<Rightarrow> string \<Rightarrow> timestamp \<Rightarrow> database \<Rightarrow> database" where
  \<comment> \<open>\<^verbatim>\<open>table('profiles').update({status, last_seen}).eq('id', user_id).execute()\<close>\<close>
  "update_profile_status user_id status now d =
     d\<lparr>profiles :=
         map (\<lambda>p. if p_id p = user_id then p\<lparr>p_status := status, p_last_seen := now\<rparr> else p)
           (profiles d)\<rparr>"

subsection \<open>\<^verbatim>\<open>MessageService\<close>\<close>

definition create_message ::
  "message_id \<Rightarrow> timestamp \<Rightarrow> room_id \<Rightarrow> user_id \<Rightarrow> string option \<Rightarrow> string \<Rightarrow> string option \<Rightarrow>
   database \<Rightarrow> envelope option \<times> database" where
  \<comment> \<open>The store assigns the id \<open>new_id\<close> and the timestamps; the columns the insert does
      not give take their defaults. The inserted row comes back as \<^verbatim>\<open>result.data[0]\<close>.
      A failed lookup in \<^verbatim>\<open>profile\<close> raises inside the \<^verbatim>\<open>try\<close>: the function returns
      \<^verbatim>\<open>None\<close> and the row stays.\<close>
  "create_message new_id now room sender content message_type reply_to d =
     (let message = \<lparr>m_id = new_id, m_room_id = room, m_sender_id = sender, m_content = content,
                      m_message_type = message_type, m_reply_to = reply_to, m_is_edited = False,
                      m_is_deleted = False, m_created_at = now, m_updated_at = now\<rparr>;
          d1 = d\<lparr>messages := messages d @ [message]\<rparr>
      in case profile d1 of
           None \<Rightarrow> (None, d1)
         | Some rows \<Rightarrow>
             (case filter (\<lambda>p. p_id p = sender) rows of
                [] \<Rightarrow> (Some \<lparr>e_row = message, e_sender = None\<rparr>, d1)
              | p # _ \<Rightarrow>
                  (Some \<lparr>e_row = message,
                         e_sender = Some \<lparr>sender_username = p_username p,
                                          sender_display_name = p_display_name p,
                                          sender_avatar = p_avatar_url p\<rparr>\<rparr>, d1)))"

definition MessageService_edit_message ::
  "timestamp \<Rightarrow> message_id \<Rightarrow> user_id option \<Rightarrow> string \<Rightarrow> database \<Rightarrow>
   message_row option \<times> database" where
  \<comment> \<open>\<open>user_id\<close> is what \<^verbatim>\<open>_get_user_id_from_sid\<close> returned: \<^verbatim>\<open>None\<close> matches no sender.\<close>
  "MessageService_edit_message now message_id user_id new_content d =
     (let check = filter (\<lambda>m. m_id m = message_id \<and> Some (m_sender_id m) = user_id) (messages d)
      in if check = [] then (None, d)
         else
           (let d1 = d\<lparr>messages :=
                        map (\<lambda>m. if m_id m = message_id
                                  then m\<lparr>m_content := Some new_content, m_is_edited := True,
                                         m_updated_at := now\<rparr>
                                  else m) (messages d)\<rparr>;
                result = filter (\<lambda>m. m_id m = message_id) (messages d1)
            in case result of [] \<Rightarrow> (None, d1) | x # _ \<Rightarrow> (Some x, d1)))"

definition MessageService_delete_message ::
  "timestamp \<Rightarrow> message_id \<Rightarrow> user_id option \<Rightarrow> database \<Rightarrow>
   (message_id \<times> room_id) option \<times> database" where
  "MessageService_delete_message now message_id user_id d =
     (let check = filter (\<lambda>m. m_id m = message_id \<and> Some (m_sender_id m) = user_id) (messages d)
      in case check of
           [] \<Rightarrow> (None, d)
         | c # _ \<Rightarrow>
           (let d1 = d\<lparr>messages :=
                        map (\<lambda>m. if m_id m = message_id
                                  then m\<lparr>m_is_deleted := True, m_content := None,
                                         m_updated_at := now\<rparr>
                                  else m) (messages d)\<rparr>;
                result = filter (\<lambda>m. m_id m = message_id) (messages d1)
            in if result \<noteq> [] then (Some (message_id, m_room_id c), d1) else (None, d1)))"

subsection \<open>\<^verbatim>\<open>NotificaitonService\<close>\<close>

definition create_notification ::
  "user_id \<Rightarrow> string \<Rightarrow> string option \<Rightarrow> string \<Rightarrow> string option \<Rightarrow> database \<Rightarrow>
   notification_row option \<times> database" where
  \<comment> \<open>The insert is built and never executed: no row reaches the table. Reading
      \<^verbatim>\<open>result.data\<close> raises inside the \<^verbatim>\<open>try\<close>, and the function returns \<^verbatim>\<open>None\<close>.\<close>
  "create_notification user_id title body notification_type reference_id d =
     (let result = InsertRequest \<lparr>n_user_id = user_id, n_title = title, n_body = body,
                                  n_notification_type = notification_type,
                                  n_reference_id = reference_id, n_is_read = False\<rparr>
      in case request_data result of
           Inl e \<Rightarrow> (None, d)
         | Inr rows \<Rightarrow> (case rows of [] \<Rightarrow> (None, d) | n # _ \<Rightarrow> (Some n, d)))"

section \<open>The transport\<close>

text \<open>
  The Socket.IO server, as far as the handlers drive it: the events emitted, in order,
  each with its target (\<^verbatim>\<open>room=\<close> or \<^verbatim>\<open>to=\<close>, and \<^verbatim>\<open>skip_sid=\<close>); the rooms the connections
  were entered into; the connections the server was told to close. A connection is the
  only member of the room named by its own sid, so an event with \<^verbatim>\<open>room=sid\<close> reaches
  that connection and no other.
\<close>

datatype payload =
    ErrorMessage string
  | MessageDict envelope
  | MessageRow message_row
  | UserId user_id
  | UserRoom user_id room_id
  | RoomId room_id
  | MessageRoom message_id room_id
  | UserStatus user_id string

record emission =
  ev_name :: string
  ev_data :: payload
  ev_room :: "string option"
  ev_skip_sid :: "socket_id option"

record transport =
  outbox :: "emission list"
  rooms :: "string \<Rightarrow> socket_id set"
  disconnected :: "socket_id list"

definition sio_emit :: "string \<Rightarrow> payload \<Rightarrow> string option \<Rightarrow> socket_id option \<Rightarrow> transport \<Rightarrow> transport" where
  "sio_emit name d room skip t =
     t\<lparr>outbox := outbox t @ [\<lparr>ev_name = name, ev_data = d, ev_room = room, ev_skip_sid = skip\<rparr>]\<rparr>"

definition sio_enter_room :: "socket_id \<Rightarrow> string \<Rightarrow> transport \<Rightarrow> transport" where
  "sio_enter_room sid room t = t\<lparr>rooms := (rooms t)(room := insert sid (rooms t room))\<rparr>"

definition sio_leave_room :: "socket_id \<Rightarrow> string \<Rightarrow> transport \<Rightarrow> transport" where
  "sio_leave_room sid room t = t\<lparr>rooms := (rooms t)(room := rooms t room - {sid})\<rparr>"

definition sio_disconnect :: "socket_id \<Rightarrow> transport \<Rightarrow> transport" where
  "sio_disconnect sid t = t\<lparr>disconnected := disconnected t @ [sid]\<rparr>"

section \<open>The hub\<close>

text \<open>
  The process-wide state: the settings, the two stores, the transport and the module's
  dict \<^verbatim>\<open>connected_user\<close> (user id to the list of its socket ids, in insertion order).
\<close>

record hub =
  cfg :: settings
  redis :: redis_store
  db :: database
  sio :: transport
  connected_user :: "(user_id \<times> socket_id list) list"

type_synonym pydict = "string \<Rightarrow> string option"

definition falsy :: "string option \<Rightarrow> bool" where
  \<comment> \<open>Python's \<^verbatim>\<open>not v\<close> for a value that is \<^verbatim>\<open>None\<close> or a \<^verbatim>\<open>str\<close>.\<close>
  "falsy v = (case v of None \<Rightarrow> True | Some s \<Rightarrow> s = [])"

definition emit :: "string \<Rightarrow> payload \<Rightarrow> string option \<Rightarrow> socket_id option \<Rightarrow> hub \<Rightarrow> hub" where
  "emit name d room skip h = h\<lparr>sio := sio_emit name d room skip (sio h)\<rparr>"

definition emit_error :: "socket_id \<Rightarrow> string \<Rightarrow> hub \<Rightarrow> hub" where
  \<comment> \<open>\<^verbatim>\<open>sio.emit('error', {'message': msg}, room=sid)\<close>\<close>
  "emit_error sid msg h = emit ''error'' (ErrorMessage msg) (Some sid) None h"

subsection \<open>\<^verbatim>\<open>app/middleware/auth.py\<close>\<close>

definition verify_jwt_token :: "(string \<Rightarrow> claims option) \<Rightarrow> string \<Rightarrow> user_data option" where
  \<comment> \<open>\<open>jwt_decode\<close> is \<^verbatim>\<open>jose.jwt.decode\<close> with the configured secret (HS256, signature and
      expiry verified): \<open>None\<close> when it raises.\<close>
  "verify_jwt_token jwt_decode token =
     (case jwt_decode token of
        None \<Rightarrow> None
      | Some payload \<Rightarrow>
          if falsy (sub payload) then None
          else (case sub payload of
                  None \<Rightarrow> None
                | Some user_id \<Rightarrow>
                    Some \<lparr>ud_user_id = user_id, ud_email = email payload, ud_role = role payload,
                          ud_payload = payload\<rparr>))"

definition extract_token_from_handshake :: "pydict \<Rightarrow> string option" where
  "extract_token_from_handshake auth_data =
     (case auth_data ''token'' of
        Some t \<Rightarrow> Some t
      | None \<Rightarrow>
          (case auth_data ''Authorization'' of
             Some auth_header \<Rightarrow>
               if take 7 auth_header = ''Bearer '' then Some (drop 7 auth_header) else None
           | None \<Rightarrow> None))"

subsection \<open>\<^verbatim>\<open>PresenceService\<close> on the hub\<close>

definition PresenceService_set_online :: "user_id \<Rightarrow> string \<Rightarrow> timestamp \<Rightarrow> hub \<Rightarrow> hub" where
  "PresenceService_set_online user_id status now h =
     h\<lparr>redis := set_user_online user_id status (redis h),
       db := update_profile_status user_id status now (db h)\<rparr>"

definition PresenceService_set_offline :: "user_id \<Rightarrow> timestamp \<Rightarrow> hub \<Rightarrow> hub" where
  "PresenceService_set_offline user_id now h =
     h\<lparr>redis := set_user_offline user_id (redis h),
       db := update_profile_status user_id ''offline'' now (db h)\<rparr>"

definition valid_status :: "string \<Rightarrow> bool" where
  "valid_status status = (status \<in> set [''online'', ''offline'', ''away'', ''busy''])"

definition PresenceService_update_status :: "user_id \<Rightarrow> string \<Rightarrow> timestamp \<Rightarrow> hub \<Rightarrow> hub" where
  "PresenceService_update_status user_id status now h =
     (if \<not> valid_status status then h
      else h\<lparr>redis := (if status = ''offline'' then set_user_offline user_id (redis h)
                        else set_user_online user_id status (redis h)),
             db := update_profile_status user_id status now (db h)\<rparr>)"

subsection \<open>Helpers of \<^verbatim>\<open>app/sockets/events.py\<close>\<close>

definition get_user_id_from_sid :: "socket_id \<Rightarrow> hub \<Rightarrow> user_id option" where
  "get_user_id_from_sid sid h =
     map_option fst (find (\<lambda>(user_id, sockets). sid \<in> set sockets) (connected_user h))"

definition check_room_membership :: "user_id \<Rightarrow> room_id \<Rightarrow> hub \<Rightarrow> bool \<times> hub" where
  \<comment> \<open>A cached list that is not empty decides alone; otherwise the repository is asked,
      and the cache is written only when the user is a member.\<close>
  "check_room_membership user_id room h =
     (let cached_members = get_cached_room_members room (redis h);
          is_member = (filter (\<lambda>(r, u). r = room \<and> u = user_id) (room_members (db h)) \<noteq> []);
          member_ids = map snd (filter (\<lambda>(r, u). r = room) (room_members (db h)));
          from_db = (if is_member
                     then (True, h\<lparr>redis := cache_room_members room member_ids 300 (redis h)\<rparr>)
                     else (False, h))
      in case cached_members of
           None \<Rightarrow> from_db
         | Some cached \<Rightarrow> if cached \<noteq> {} then (user_id \<in> cached, h) else from_db)"

fun notify_members :: "envelope \<Rightarrow> user_id list \<Rightarrow> hub \<Rightarrow> hub" where
  \<comment> \<open>The loop of \<^verbatim>\<open>_notify_offline_members\<close>. Every row the repository returns has the
      key \<^verbatim>\<open>content\<close>, so \<^verbatim>\<open>message.get('content', 'Arquivo')\<close> is the stored content,
      \<^verbatim>\<open>None\<close> included.\<close>
  "notify_members message [] h = h"
| "notify_members message (member_id # members) h =
     (if \<not> is_user_online member_id (redis h)
      then
        (let h1 = h\<lparr>redis := queue_message (cfg h) member_id message (redis h)\<rparr>;
             (n, d) = create_notification member_id ''Nova mensagem'' (m_content (e_row message))
                        ''new_message'' (Some (m_id (e_row message))) (db h1)
         in notify_members message members (h1\<lparr>db := d\<rparr>))
      else notify_members message members h)"

definition notify_offline_members :: "room_id \<Rightarrow> user_id \<Rightarrow> envelope \<Rightarrow> hub \<Rightarrow> hub" where
  "notify_offline_members room sender_id message h =
     (let members = map snd (filter (\<lambda>(r, u). r = room \<and> u \<noteq> sender_id) (room_members (db h)))
      in notify_members message members h)"

subsection \<open>Connection and authentication\<close>

fun emit_queued :: "socket_id \<Rightarrow> envelope list \<Rightarrow> hub \<Rightarrow> hub" where
  \<comment> \<open>\<^verbatim>\<open>for msg in queued_messages: await sio.emit('message', msg, room=sid)\<close>\<close>
  "emit_queued sid [] h = h"
| "emit_queued sid (msg # msgs) h =
     emit_queued sid msgs (emit ''message'' (MessageDict msg) (Some sid) None h)"

definition attach :: "user_id \<Rightarrow> socket_id \<Rightarrow> (user_id \<times> socket_id list) list \<Rightarrow> (user_id \<times> socket_id list) list" where
  \<comment> \<open>\<^verbatim>\<open>if user_id not in connected_user: connected_user[user_id] = []\<close>, then the append.\<close>
  "attach user_id sid cu =
     (let cu1 = (if map_of cu user_id = None then cu @ [(user_id, [])] else cu)
      in map (\<lambda>(u, sockets). if u = user_id then (u, sockets @ [sid]) else (u, sockets)) cu1)"

definition connect ::
  "(string \<Rightarrow> claims option) \<Rightarrow> timestamp \<Rightarrow> socket_id \<Rightarrow> pydict \<Rightarrow> pydict option \<Rightarrow> hub \<Rightarrow>
   (py_error + bool) \<times> hub" where
  \<comment> \<open>The handler reads the token from \<open>auth\<close> alone; \<open>envrion\<close> is not used. An exception
      of \<^verbatim>\<open>set_user_session\<close> is not caught: the handler ends with it.\<close>
  "connect jwt_decode now sid envrion auth h =
     (let token = extract_token_from_handshake (case auth of None \<Rightarrow> Map.empty | Some a \<Rightarrow> a)
      in if falsy token then (Inr False, h\<lparr>sio := sio_disconnect sid (sio h)\<rparr>)
         else
           (case verify_jwt_token jwt_decode (case token of None \<Rightarrow> [] | Some t \<Rightarrow> t) of
              None \<Rightarrow> (Inr False, h\<lparr>sio := sio_disconnect sid (sio h)\<rparr>)
            | Some ud \<Rightarrow>
                (let user_id = ud_user_id ud
                 in case set_user_session user_id sid ud 86400 (redis h) of
                      Inl e \<Rightarrow> (Inl e, h)
                    | Inr r \<Rightarrow>
                        (let h1 = PresenceService_set_online user_id ''online'' now (h\<lparr>redis := r\<rparr>);
                             h2 = h1\<lparr>connected_user := attach user_id sid (connected_user h1)\<rparr>;
                             (queued_messages, r2) = get_queued_messages user_id (redis h2);
                             h3 = emit_queued sid queued_messages (h2\<lparr>redis := r2\<rparr>);
                             h4 = emit ''user_online'' (UserId user_id) None (Some sid) h3
                         in (Inr True, h4)))))"

definition list_romove :: "socket_id list \<Rightarrow> socket_id \<Rightarrow> py_error + socket_id list" where
  \<comment> \<open>\<^verbatim>\<open>sockets.romove(sid)\<close>: a list has no such method.\<close>
  "list_romove sockets sid = Inl (AttributeError ''list object has no attribute romove'')"

definition disconnect :: "timestamp \<Rightarrow> socket_id \<Rightarrow> hub \<Rightarrow> (py_error + unit) \<times> hub" where
  \<comment> \<open>Nothing catches the exception of the removal: the handler ends with it, before the
      session, the presence and the broadcast.\<close>
  "disconnect now sid h =
     (case find (\<lambda>(uid, sockets). sid \<in> set sockets) (connected_user h) of
        None \<Rightarrow> (Inr (), h)
      | Some (uid, sockets) \<Rightarrow>
          (case list_romove sockets sid of
             Inl e \<Rightarrow> (Inl e, h)
           | Inr sockets' \<Rightarrow>
               (let cu = (if sockets' = []
                          then filter (\<lambda>(u, ss). u \<noteq> uid) (connected_user h)
                          else map (\<lambda>(u, ss). if u = uid then (u, sockets') else (u, ss))
                                 (connected_user h));
                    h1 = h\<lparr>connected_user := cu\<rparr>
                in if uid = [] then (Inr (), h1)
                   else
                     (let h2 = h1\<lparr>redis := delete_user_session uid sid (redis h1)\<rparr>
                      in if (case map_of (connected_user h2) uid of
                               None \<Rightarrow> True | Some ss \<Rightarrow> ss = [])
                         then (Inr (), emit ''user_offline'' (UserId uid) None None
                                         (PresenceService_set_offline uid now h2))
                         else (Inr (), h2)))))"

subsection \<open>Rooms\<close>

text \<open>
  The payload \<open>data\<close> of an event is a dict of strings; \<^verbatim>\<open>data.get(k)\<close> is \<open>data k\<close>. A
  handler is run from its start to its end, with no other task in between. The handlers
  below run inside \<^verbatim>\<open>try\<close>; the one call of theirs that can raise here is the rate
  limiter's, and the \<^verbatim>\<open>except\<close> branch of \<open>send_message\<close> emits the error with its text.
\<close>

definition join_room :: "socket_id \<Rightarrow> pydict \<Rightarrow> hub \<Rightarrow> hub" where
  "join_room sid data h =
     (let room = data ''room_id''
      in if falsy room then emit_error sid ''room_id required'' h
         else
           (let user_id = get_user_id_from_sid sid h
            in if falsy user_id then emit_error sid ''Unauthorized'' h
               else
                 (let (is_member, h1) = check_room_membership (the user_id) (the room) h
                  in if \<not> is_member then emit_error sid ''Not a member of this room'' h1
                     else
                       (let h2 = h1\<lparr>sio := sio_enter_room sid (the room) (sio h1)\<rparr>;
                            h3 = emit ''user_joined_room'' (UserRoom (the user_id) (the room))
                                   room (Some sid) h2
                        in emit ''room_joined'' (RoomId (the room)) room None h3))))"

definition leave_room :: "socket_id \<Rightarrow> pydict \<Rightarrow> hub \<Rightarrow> hub" where
  "leave_room sid data h =
     (let room = data ''room_id''
      in if falsy room then h
         else
           (let user_id = get_user_id_from_sid sid h;
                h1 = h\<lparr>sio := sio_leave_room sid (the room) (sio h)\<rparr>
            in if \<not> falsy user_id
               then emit ''user_left_room'' (UserRoom (the user_id) (the room)) room None h1
               else h1))"

subsection \<open>Messages\<close>

definition send_message :: "message_id \<Rightarrow> timestamp \<Rightarrow> socket_id \<Rightarrow> pydict \<Rightarrow> hub \<Rightarrow> hub" where
  "send_message new_id now sid data h =
     (let room = data ''room_id'';
          content = data ''content'';
          message_type = (case data ''message_type'' of None \<Rightarrow> ''text'' | Some t \<Rightarrow> t);
          reply_to = data ''reply_to''
      in if falsy room then emit_error sid ''room_id required'' h
         else
           (let user_id = get_user_id_from_sid sid h
            in if falsy user_id then emit_error sid ''Unauthorized'' h
               else
                 (let (checked, r) = check_rate_limit (the user_id)
                                       (MAX_MESSAGES_PER_MINUTE (cfg h)) 60 (redis h);
                      h1 = h\<lparr>redis := r\<rparr>
                  in case checked of
                       Inl e \<Rightarrow> emit_error sid (str_of_error e) h1
                     | Inr can_send \<Rightarrow>
                         if \<not> can_send then emit_error sid ''Rate limit exceeded'' h1
                         else
                           (let (is_member, h2) =
                                  check_room_membership (the user_id) (the room) h1
                            in if \<not> is_member then emit_error sid ''Not a member'' h2
                               else
                                 (let (message, d) =
                                        create_message new_id now (the room) (the user_id)
                                          content message_type reply_to (db h2);
                                      h3 = h2\<lparr>db := d\<rparr>
                                  in case message of
                                       None \<Rightarrow> emit_error sid ''Failed to save message'' h3
                                     | Some m \<Rightarrow>
                                         notify_offline_members (the room) (the user_id) m
                                           (emit ''message'' (MessageDict m) room None h3))))))"

definition edit_message :: "timestamp \<Rightarrow> socket_id \<Rightarrow> pydict \<Rightarrow> hub \<Rightarrow> hub" where
  "edit_message now sid data h =
     (let message_id = data ''message_id'';
          content = data ''content''
      in if falsy message_id \<or> falsy content
         then emit_error sid ''message_id and content required'' h
         else
           (let user_id = get_user_id_from_sid sid h;
                (updated_message, d) =
                   MessageService_edit_message now (the message_id) user_id (the content) (db h);
                h1 = h\<lparr>db := d\<rparr>
            in case updated_message of
                 None \<Rightarrow> emit_error sid ''Failed to edit'' h1
               | Some m \<Rightarrow> emit ''message_edited'' (MessageRow m) (Some (m_room_id m)) None h1))"

definition delete_message :: "timestamp \<Rightarrow> socket_id \<Rightarrow> pydict \<Rightarrow> hub \<Rightarrow> hub" where
  "delete_message now sid data h =
     (let message_id = data ''message_id''
      in if falsy message_id then emit_error sid ''message_id required'' h
         else
           (let user_id = get_user_id_from_sid sid h;
                (result, d) = MessageService_delete_message now (the message_id) user_id (db h);
                h1 = h\<lparr>db := d\<rparr>
            in case result of
                 None \<Rightarrow> emit_error sid ''Failed to delete'' h1
               | Some (mid, room) \<Rightarrow>
                   emit ''message_deleted'' (MessageRoom (the message_id) room) (Some room) None h1))"

subsection \<open>Typing indicators and status\<close>

definition typing_start :: "socket_id \<Rightarrow> pydict \<Rightarrow> hub \<Rightarrow> hub" where
  "typing_start sid data h =
     (let room = data ''room_id''
      in if falsy room then h
         else
           (let user_id = get_user_id_from_sid sid h
            in if falsy user_id then h
               else
                 (let h1 = h\<lparr>redis := set_typing (the room) (the user_id) (TYPING_TIMEOUT (cfg h))
                                          (redis h)\<rparr>
                  in emit ''user_typing'' (UserRoom (the user_id) (the room)) room (Some sid) h1)))"

definition typing_stop :: "socket_id \<Rightarrow> pydict \<Rightarrow> hub \<Rightarrow> hub" where
  "typing_stop sid data h =
     (let room = data ''room_id''
      in if falsy room then h
         else
           (let user_id = get_user_id_from_sid sid h
            in if falsy user_id then h
               else
                 (let h1 = h\<lparr>redis := remove_typing (the room) (the user_id) (redis h)\<rparr>
                  in emit ''user_stopped_typing'' (UserRoom (the user_id) (the room)) room
                       (Some sid) h1)))"

definition update_status :: "timestamp \<Rightarrow> socket_id \<Rightarrow> pydict \<Rightarrow> hub \<Rightarrow> hub" where
  "update_status now sid data h =
     (let status = (case data ''status'' of None \<Rightarrow> ''online'' | Some s \<Rightarrow> s)
      in if \<not> valid_status status then emit_error sid ''Invalid status'' h
         else
           (let user_id = get_user_id_from_sid sid h
            in if falsy user_id then h
               else
                 emit ''user_status_changed'' (UserStatus (the user_id) status) None (Some sid)
                   (PresenceService_update_status (the user_id) status now h)))"

section \<open>Runs and example states\<close>








definition empty_redis :: redis_store where
  "empty_redis =
     \<lparr>session_tab = (\<lambda>k. None), presence_tab = (\<lambda>k. None), queue_tab = (\<lambda>k. None),
      ratelimit_tab = (\<lambda>k. None), typing_tab = (\<lambda>k. None), room_members_tab = (\<lambda>k. None)\<rparr>"

definition empty_db :: database where
  "empty_db = \<lparr>messages = [], room_members = [], profiles = [], profile = None, notifications = []\<rparr>"

definition empty_sio :: transport where
  "empty_sio = \<lparr>outbox = [], rooms = (\<lambda>room. {}), disconnected = []\<rparr>"

definition empty_hub :: hub where
  "empty_hub =
     \<lparr>cfg = default_settings, redis = empty_redis, db = empty_db, sio = empty_sio,
      connected_user = []\<rparr>"

text \<open>Rows and states of the end-to-end scenarios, used to run the definitions.\<close>

definition demo_row :: "message_id \<Rightarrow> user_id \<Rightarrow> string \<Rightarrow> message_row" where
  "demo_row mid sender txt =
     \<lparr>m_id = mid, m_room_id = ''R'', m_sender_id = sender, m_content = Some txt,
      m_message_type = ''text'', m_reply_to = None, m_is_edited = False, m_is_deleted = False,
      m_created_at = 0, m_updated_at = 0\<rparr>"

definition demo_envelope :: "message_id \<Rightarrow> user_id \<Rightarrow> string \<Rightarrow> envelope" where
  "demo_envelope mid sender txt = \<lparr>e_row = demo_row mid sender txt, e_sender = None\<rparr>"

definition room_R_db :: database where
  \<comment> \<open>Room R with the members alice and bob.\<close>
  "room_R_db = empty_db\<lparr>room_members := [(''R'', ''alice''), (''R'', ''bob'')]\<rparr>"

definition miss_hub :: hub where
  \<comment> \<open>No cached members for room R.\<close>
  "miss_hub = empty_hub\<lparr>db := room_R_db\<rparr>"

definition stale_hub :: hub where
  \<comment> \<open>The cache of room R holds bob and mallory; the repository holds alice and bob.\<close>
  "stale_hub =
     empty_hub\<lparr>db := room_R_db,
               redis := empty_redis\<lparr>room_members_tab :=
                          (\<lambda>k. None)(''R'' \<mapsto> ({''bob'', ''mallory''}, Some 120))\<rparr>\<rparr>"

definition gina_hub :: hub where
  \<comment> \<open>Message M of room R was sent by gina; gina and harry are connected.\<close>
  "gina_hub =
     empty_hub\<lparr>db := empty_db\<lparr>messages := [demo_row ''M'' ''gina'' ''hello''],
                               room_members := [(''R'', ''gina''), (''R'', ''harry'')]\<rparr>,
               connected_user := [(''gina'', [''s-gina'']), (''harry'', [''s-harry''])]\<rparr>"

definition demo_jwt_decode :: "string \<Rightarrow> claims option" where
  \<comment> \<open>A decoder that accepts one token, signed for alice.\<close>
  "demo_jwt_decode token =
     (if token = ''tok-alice'' then Some \<lparr>sub = Some ''alice'', email = None, role = None\<rparr>
      else None)"

definition alice_offline_hub :: hub where
  \<comment> \<open>Scenario 1: nobody is connected, and two envelopes wait in \<^verbatim>\<open>queue:alice\<close>.\<close>
  "alice_offline_hub =
     empty_hub\<lparr>redis := empty_redis\<lparr>queue_tab :=
        (\<lambda>k. None)(''alice'' \<mapsto> ([demo_envelope ''E1'' ''bob'' ''one'',
                                   demo_envelope ''E2'' ''bob'' ''two''], Some 86400))\<rparr>\<rparr>"

definition alice_online_hub :: hub where
  \<comment> \<open>Alice holds the single connection s1: registry, session mirror and presence.\<close>
  "alice_online_hub =
     empty_hub\<lparr>redis := empty_redis\<lparr>
                  session_tab := (\<lambda>k. None)((''alice'', ''s1'') \<mapsto> (''{}'', Some 86400)),
                  presence_tab := (\<lambda>k. None)(''alice'' \<mapsto> (''online'', Some 300))\<rparr>,
               connected_user := [(''alice'', [''s1''])]\<rparr>"

definition eve_frank_hub :: hub where
  \<comment> \<open>Scenario 4: room R has the members eve, connected and online, and frank, offline.
      The relation \<^verbatim>\<open>profile\<close> exists and is empty.\<close>
  "eve_frank_hub =
     empty_hub\<lparr>redis := empty_redis\<lparr>
                  presence_tab := (\<lambda>k. None)(''eve'' \<mapsto> (''online'', Some 300))\<rparr>,
               db := empty_db\<lparr>room_members := [(''R'', ''eve''), (''R'', ''frank'')],
                              profile := Some []\<rparr>,
               connected_user := [(''eve'', [''s-eve''])]\<rparr>"


definition alice_queued_hub :: hub where
  \<comment> \<open>Nobody is connected; E1 and then E2 were queued for alice.\<close>
  "alice_queued_hub =
     empty_hub\<lparr>redis :=
        queue_message default_settings ''alice'' (demo_envelope ''E2'' ''bob'' ''two'')
          (queue_message default_settings ''alice'' (demo_envelope ''E1'' ''bob'' ''one'')
             empty_redis)\<rparr>"


section \<open>Properties\<close>

subsection \<open>The rate limiter\<close>












subsection \<open>The offline queue\<close>

lemma outbox_emit_queued:
  "outbox (sio (emit_queued sid msgs h)) =
     outbox (sio h) @
       map (\<lambda>m. \<lparr>ev_name = ''message'', ev_data = MessageDict m, ev_room = Some sid,
                 ev_skip_sid = None\<rparr>) msgs"
  by (induction msgs arbitrary: h) (simp_all add: emit_def sio_emit_def)

lemma lrange_after_lpush_expire:
  "0 < ttl \<Longrightarrow> r_lrange_all (r_expire (r_lpush t k x) k ttl) k = x # r_lrange_all t k"
  by (simp add: r_lrange_all_def r_expire_def r_lpush_def split: option.splits prod.splits)

lemma queue_message_range:
  "0 < MESSAGE_QUEUE_RETENTION cf \<Longrightarrow>
   r_lrange_all (queue_tab (queue_message cf u m r)) u = m # r_lrange_all (queue_tab r) u"
  by (simp add: queue_message_def lrange_after_lpush_expire)

text \<open>
  The store keeps the newest envelope first. With a positive retention, \<open>queue_message\<close>
  pushes at the head of the user's list and \<open>get_queued_messages\<close> reads the list from its
  head and deletes the key: after \<open>m1\<close> and then \<open>m2\<close> were queued, it returns \<open>m2\<close>, then
  \<open>m1\<close>, then what was queued before them. The loop \<open>emit_queued\<close> emits a list in its order
  to the room of the sid it is given.
\<close>

lemma queue_newest_first:
  assumes "0 < MESSAGE_QUEUE_RETENTION cf"
  shows "fst (get_queued_messages u (queue_message cf u m2 (queue_message cf u m1 r))) =
     m2 # m1 # r_lrange_all (queue_tab r) u
   \<and> queue_tab (snd (get_queued_messages u (queue_message cf u m2 (queue_message cf u m1 r)))) u
       = None"
  using assms by (simp add: get_queued_messages_def queue_message_range r_delete_def)

subsection \<open>The membership check\<close>

lemma cache_hit_decides:
  assumes "room_members_tab (redis h) room = Some (s, e)" and "s \<noteq> {}"
  shows "check_room_membership user room h = (user \<in> s, h)"
  using assms
  by (simp add: check_room_membership_def get_cached_room_members_def r_exists_def
      r_smembers_def Let_def)

lemma cache_miss_reads_repository:
  assumes "room_members_tab (redis h) room = None"
  shows "check_room_membership user room h =
     (if (room, user) \<in> set (room_members (db h))
      then (True, h\<lparr>redis := (redis h)\<lparr>room_members_tab :=
              (room_members_tab (redis h))
                (room \<mapsto> (set (map snd (filter (\<lambda>p. fst p = room) (room_members (db h)))),
                           Some 300))\<rparr>\<rparr>)
      else (False, h))"
proof -
  have mem: "(filter (\<lambda>(r, u). r = room \<and> u = user) (room_members (db h)) \<noteq> []) =
      ((room, user) \<in> set (room_members (db h)))"
    by (auto simp: filter_empty_conv)
  have f: "(\<lambda>(r, u). r = room) = (\<lambda>p. fst p = room)" by auto
  show ?thesis
  proof (cases "(room, user) \<in> set (room_members (db h))")
    case True
    then have ne: "filter (\<lambda>p. fst p = room) (room_members (db h)) \<noteq> []"
      by (force simp: filter_empty_conv)
    show ?thesis
      using assms True ne mem
      by (simp add: check_room_membership_def get_cached_room_members_def r_exists_def Let_def
          cache_room_members_def r_delete_def r_sadd_def r_expire_def f)
  next
    case False
    then show ?thesis
      using assms mem
      by (simp add: check_room_membership_def get_cached_room_members_def r_exists_def Let_def)
  qed
qed

text \<open>
  Claim C1, as the code has it. On a cache miss the check reads the repository: the
  result is the repository's verdict, and when the user is a member the cache of the room
  is rebuilt from the repository's member list (300 seconds to live); when the user is
  not a member nothing is written. When the cache holds a set that is not empty, the set
  decides: the result is whether the user is in it, whatever the repository holds, and
  nothing is changed.
\<close>

theorem membership_cache_first:
  "(room_members_tab (redis h) room = None \<longrightarrow>
      check_room_membership user room h =
        (if (room, user) \<in> set (room_members (db h))
         then (True, h\<lparr>redis := (redis h)\<lparr>room_members_tab :=
                 (room_members_tab (redis h))
                   (room \<mapsto> (set (map snd (filter (\<lambda>p. fst p = room) (room_members (db h)))),
                              Some 300))\<rparr>\<rparr>)
         else (False, h)))
   \<and> (room_members_tab (redis h) room = Some (s, e) \<and> s \<noteq> {} \<longrightarrow>
      check_room_membership user room (h\<lparr>db := d\<rparr>) = (user \<in> s, h\<lparr>db := d\<rparr>))"
  using cache_miss_reads_repository [of h room user]
    cache_hit_decides [of "h\<lparr>db := d\<rparr>" room s e user]
  by simp

text \<open>
  A miss with a member, a miss with a stranger, and a cached set deciding over a
  repository that has no member at all.
\<close>

theorem membership_cache_first_witness:
  "check_room_membership ''alice'' ''R'' miss_hub =
     (True, miss_hub\<lparr>redis := empty_redis\<lparr>room_members_tab :=
              (\<lambda>k. None)(''R'' \<mapsto> ({''alice'', ''bob''}, Some 300))\<rparr>\<rparr>)
   \<and> check_room_membership ''mallory'' ''R'' miss_hub = (False, miss_hub)
   \<and> check_room_membership ''bob'' ''R'' (stale_hub\<lparr>db := empty_db\<rparr>) =
       (True, stale_hub\<lparr>db := empty_db\<rparr>)"
  using membership_cache_first [where h = miss_hub and room = "''R''" and user = "''alice''"]
    membership_cache_first [where h = miss_hub and room = "''R''" and user = "''mallory''"]
    membership_cache_first
      [where h = stale_hub and room = "''R''" and s = "{''bob'', ''mallory''}" and e = "Some 120"
         and user = "''bob''" and d = empty_db]
  by (simp add: miss_hub_def stale_hub_def empty_hub_def empty_redis_def room_R_db_def
      empty_db_def insert_commute)

text \<open>
  The cached set of room R lacks alice, a member in the repository: the check returns
  false without a repository read. It holds mallory, not a member in the repository: the
  check returns true. The cache is not rebuilt in either case.
\<close>

theorem membership_cache_trusted_counterexample:
  "check_room_membership ''alice'' ''R'' stale_hub = (False, stale_hub)
   \<and> (''R'', ''alice'') \<in> set (room_members (db stale_hub))
   \<and> check_room_membership ''mallory'' ''R'' stale_hub = (True, stale_hub)
   \<and> (''R'', ''mallory'') \<notin> set (room_members (db stale_hub))"
  by (simp add: check_room_membership_def get_cached_room_members_def r_exists_def
      r_smembers_def Let_def stale_hub_def empty_hub_def empty_redis_def room_R_db_def
      empty_db_def)

subsection \<open>Editing and deleting messages\<close>

lemma filter_hd_cases:
  assumes "y \<in> set xs" and "P y"
  obtains x rest where "filter P xs = x # rest" and "x \<in> set xs" and "P x"
proof -
  from assms have "filter P xs \<noteq> []" by (auto simp: filter_empty_conv)
  then obtain x rest where eq: "filter P xs = x # rest" by (cases "filter P xs") auto
  then have "x \<in> set (filter P xs)" by simp
  then have "x \<in> set xs" and "P x" by auto
  with eq show thesis using that by blast
qed

lemma map_fixed_point: "x \<in> set xs \<Longrightarrow> map f xs = xs \<Longrightarrow> f x = x"
  by (induction xs) auto

lemma edit_not_owner:
  assumes "filter (\<lambda>m. m_id m = mid \<and> Some (m_sender_id m) = user) (messages d) = []"
  shows "MessageService_edit_message now mid user c d = (None, d)"
  using assms by (simp add: MessageService_edit_message_def)

lemma edit_owner:
  assumes "m \<in> set (messages d)" and "m_id m = mid" and "m_sender_id m = u"
  obtains y where "y \<in> set (messages d)" and "m_id y = mid"
    and "MessageService_edit_message now mid (Some u) c d =
          (Some (y\<lparr>m_content := Some c, m_is_edited := True, m_updated_at := now\<rparr>),
           d\<lparr>messages :=
                map (\<lambda>m. if m_id m = mid
                          then m\<lparr>m_content := Some c, m_is_edited := True, m_updated_at := now\<rparr>
                          else m) (messages d)\<rparr>)"
proof -
  let ?f = "\<lambda>m. if m_id m = mid
                 then m\<lparr>m_content := Some c, m_is_edited := True, m_updated_at := now\<rparr> else m"
  have check: "filter (\<lambda>m. m_id m = mid \<and> Some (m_sender_id m) = Some u) (messages d) \<noteq> []"
    using assms by (auto simp: filter_empty_conv)
  have "?f m \<in> ?f ` set (messages d)" using assms(1) by (rule imageI)
  then have "?f m \<in> set (map ?f (messages d))" by (simp only: set_map)
  moreover have "m_id (?f m) = mid" using assms(2) by simp
  ultimately obtain x rest where
    eq: "filter (\<lambda>m. m_id m = mid) (map ?f (messages d)) = x # rest"
    and x: "x \<in> set (map ?f (messages d))" and xid: "m_id x = mid"
    by (rule filter_hd_cases [where P = "\<lambda>m. m_id m = mid"])
  from x obtain y where y: "y \<in> set (messages d)" and xy: "x = ?f y" by auto
  from xy xid have yid: "m_id y = mid" by (simp split: if_splits)
  with xy have "x = y\<lparr>m_content := Some c, m_is_edited := True, m_updated_at := now\<rparr>" by simp
  with check eq have "MessageService_edit_message now mid (Some u) c d =
      (Some (y\<lparr>m_content := Some c, m_is_edited := True, m_updated_at := now\<rparr>),
       d\<lparr>messages := map ?f (messages d)\<rparr>)"
    by (simp add: MessageService_edit_message_def Let_def)
  with y yid show thesis using that by blast
qed

lemma delete_owner:
  assumes "m \<in> set (messages d)" and "m_id m = mid" and "m_sender_id m = u"
  obtains room where
    "MessageService_delete_message now mid (Some u) d =
       (Some (mid, room),
        d\<lparr>messages :=
             map (\<lambda>m. if m_id m = mid
                       then m\<lparr>m_is_deleted := True, m_content := None, m_updated_at := now\<rparr>
                       else m) (messages d)\<rparr>)"
proof -
  let ?g = "\<lambda>m. if m_id m = mid
                 then m\<lparr>m_is_deleted := True, m_content := None, m_updated_at := now\<rparr> else m"
  from assms have "filter (\<lambda>m. m_id m = mid \<and> Some (m_sender_id m) = Some u) (messages d) \<noteq> []"
    by (auto simp: filter_empty_conv)
  then obtain x rest where
    eq: "filter (\<lambda>m. m_id m = mid \<and> Some (m_sender_id m) = Some u) (messages d) = x # rest"
    by (cases "filter (\<lambda>m. m_id m = mid \<and> Some (m_sender_id m) = Some u) (messages d)") auto
  have "?g m \<in> ?g ` set (messages d)" using assms(1) by (rule imageI)
  then have "?g m \<in> set (map ?g (messages d))" by (simp only: set_map)
  moreover have "m_id (?g m) = mid" using assms(2) by simp
  ultimately have ne: "filter (\<lambda>m. m_id m = mid) (map ?g (messages d)) \<noteq> []"
    unfolding filter_empty_conv by blast
  from eq ne have "MessageService_delete_message now mid (Some u) d =
      (Some (mid, m_room_id x), d\<lparr>messages := map ?g (messages d)\<rparr>)"
    by (simp add: MessageService_delete_message_def Let_def)
  then show thesis using that by blast
qed


text \<open>
  Claim C5 on the code. \<open>MessageService_edit_message\<close> looks for a row with the id and
  the sender and never reads \<open>is_deleted\<close>. So after the owner's \<open>delete(m, u)\<close>, which
  succeeds, the owner's \<open>edit(m, u, c')\<close> does not return nothing: it returns the row with
  content \<open>c'\<close>, \<open>is_edited\<close> true and the new timestamp, the row is still marked
  deleted, and the stored table has changed.
\<close>

theorem delete_then_edit_rewrites_row:
  assumes "m \<in> set (messages d)" and "m_id m = mid" and "m_sender_id m = u"
  shows "fst (MessageService_delete_message t1 mid (Some u) d) \<noteq> None
    \<and> (\<exists>x. fst (MessageService_edit_message t2 mid (Some u) c
                  (snd (MessageService_delete_message t1 mid (Some u) d))) = Some x
           \<and> m_id x = mid \<and> m_content x = Some c \<and> m_is_edited x \<and> m_is_deleted x
           \<and> m_updated_at x = t2)
    \<and> snd (MessageService_edit_message t2 mid (Some u) c
              (snd (MessageService_delete_message t1 mid (Some u) d)))
        \<noteq> snd (MessageService_delete_message t1 mid (Some u) d)"
proof -
  let ?g = "\<lambda>m. if m_id m = mid
                 then m\<lparr>m_is_deleted := True, m_content := None, m_updated_at := t1\<rparr> else m"
  let ?f = "\<lambda>m. if m_id m = mid
                 then m\<lparr>m_content := Some c, m_is_edited := True, m_updated_at := t2\<rparr> else m"
  let ?d1 = "d\<lparr>messages := map ?g (messages d)\<rparr>"
  from assms obtain room where
    del: "MessageService_delete_message t1 mid (Some u) d = (Some (mid, room), ?d1)"
    by (rule delete_owner)
  have md1: "messages ?d1 = map ?g (messages d)" by simp
  have gm: "?g m \<in> set (messages ?d1)"
    unfolding md1 set_map using assms(1) by (rule imageI)
  have gid: "m_id (?g m) = mid" and gsender: "m_sender_id (?g m) = u"
    using assms(2,3) by simp_all
  from gm gid gsender obtain y where y: "y \<in> set (messages ?d1)" and yid: "m_id y = mid"
    and ed: "MessageService_edit_message t2 mid (Some u) c ?d1 =
          (Some (y\<lparr>m_content := Some c, m_is_edited := True, m_updated_at := t2\<rparr>),
           ?d1\<lparr>messages := map ?f (messages ?d1)\<rparr>)"
    by (rule edit_owner)
  from y have "y \<in> ?g ` set (messages d)" unfolding md1 set_map .
  then obtain z where "z \<in> set (messages d)" and yz: "y = ?g z" by (rule imageE)
  have "m_id z = mid"
  proof (rule ccontr)
    assume "m_id z \<noteq> mid"
    with yz have "y = z" by simp
    with yid \<open>m_id z \<noteq> mid\<close> show False by simp
  qed
  with yz have yz': "y = z\<lparr>m_is_deleted := True, m_content := None, m_updated_at := t1\<rparr>"
    by simp
  have ydel: "m_is_deleted y" and ynone: "m_content y = None"
    unfolding yz' by simp_all
  let ?x = "y\<lparr>m_content := Some c, m_is_edited := True, m_updated_at := t2\<rparr>"
  have fy: "?f y = ?x" using yid by simp
  have xprops: "m_id ?x = mid \<and> m_content ?x = Some c \<and> m_is_edited ?x \<and> m_is_deleted ?x
      \<and> m_updated_at ?x = t2"
    using yid ydel by simp
  have neq: "map ?f (messages ?d1) \<noteq> messages ?d1"
  proof
    assume "map ?f (messages ?d1) = messages ?d1"
    with y have "?f y = y" by (rule map_fixed_point)
    then have "m_content (?f y) = m_content y" by (rule arg_cong)
    then have "m_content ?x = None" unfolding fy ynone .
    then show False by simp
  qed
  have changed: "?d1\<lparr>messages := map ?f (messages ?d1)\<rparr> \<noteq> ?d1"
  proof
    assume "?d1\<lparr>messages := map ?f (messages ?d1)\<rparr> = ?d1"
    then have "messages (?d1\<lparr>messages := map ?f (messages ?d1)\<rparr>) = messages ?d1"
      by (rule arg_cong)
    then have "map ?f (messages ?d1) = messages ?d1" by simp
    with neq show False ..
  qed
  have 1: "fst (MessageService_delete_message t1 mid (Some u) d) \<noteq> None"
    unfolding del by simp
  have 2: "\<exists>x. fst (MessageService_edit_message t2 mid (Some u) c
                  (snd (MessageService_delete_message t1 mid (Some u) d))) = Some x
           \<and> m_id x = mid \<and> m_content x = Some c \<and> m_is_edited x \<and> m_is_deleted x
           \<and> m_updated_at x = t2"
    unfolding del snd_conv ed fst_conv using xprops by blast
  have 3: "snd (MessageService_edit_message t2 mid (Some u) c
              (snd (MessageService_delete_message t1 mid (Some u) d)))
        \<noteq> snd (MessageService_delete_message t1 mid (Some u) d)"
    unfolding del snd_conv ed using changed .
  from 1 2 3 show ?thesis by blast
qed

theorem delete_then_edit_rewrites_row_witness:
  "fst (MessageService_edit_message 2 ''M'' (Some ''gina'') ''again''
          (snd (MessageService_delete_message 1 ''M'' (Some ''gina'') (db gina_hub)))) \<noteq> None
   \<and> snd (MessageService_edit_message 2 ''M'' (Some ''gina'') ''again''
          (snd (MessageService_delete_message 1 ''M'' (Some ''gina'') (db gina_hub))))
      \<noteq> snd (MessageService_delete_message 1 ''M'' (Some ''gina'') (db gina_hub))"
proof -
  have "demo_row ''M'' ''gina'' ''hello'' \<in> set (messages (db gina_hub))"
    by (simp add: gina_hub_def empty_hub_def empty_db_def)
  moreover have "m_id (demo_row ''M'' ''gina'' ''hello'') = ''M''"
    and "m_sender_id (demo_row ''M'' ''gina'' ''hello'') = ''gina''"
    by (simp_all add: demo_row_def)
  ultimately show ?thesis
    using delete_then_edit_rewrites_row
      [of "demo_row ''M'' ''gina'' ''hello''" "db gina_hub" "''M''" "''gina''" 1 2 "''again''"]
    by auto
qed

text \<open>
  Gina deletes her message M and then edits it: the edit returns the row with the new
  content, and the stored row, its content nulled by the delete, carries it again.
\<close>

theorem edit_after_delete_scenario:
  "fst (MessageService_edit_message 2 ''M'' (Some ''gina'') ''again''
          (snd (MessageService_delete_message 1 ''M'' (Some ''gina'') (db gina_hub)))) =
     Some ((demo_row ''M'' ''gina'' ''hello'')
             \<lparr>m_content := Some ''again'', m_is_edited := True, m_is_deleted := True,
              m_updated_at := 2\<rparr>)
   \<and> map m_content (messages (snd (MessageService_delete_message 1 ''M'' (Some ''gina'')
        (db gina_hub)))) = [None]
   \<and> map m_content (messages (snd (MessageService_edit_message 2 ''M'' (Some ''gina'') ''again''
          (snd (MessageService_delete_message 1 ''M'' (Some ''gina'') (db gina_hub)))))) =
       [Some ''again'']"
  by (simp add: MessageService_edit_message_def MessageService_delete_message_def gina_hub_def
      empty_hub_def empty_db_def demo_row_def)


text \<open>
  Claim C6. An \<open>edit_message\<close> event with a message id and a content, from the connection
  \<open>sid\<close> of user \<open>H\<close>. If no stored row with that id has \<open>H\<close> as its sender, the service
  returns nothing, the handler emits one \<open>error\<close> event, to the room of \<open>sid\<close> alone, no
  \<open>message_edited\<close> event, and the hub is otherwise as before: the stored rows are
  unchanged. If a row with that id has \<open>H\<close> as its sender, the service returns the row
  with the new content, \<open>is_edited\<close> true and the timestamp of the edit, the table holds the
  updated row, and \<open>message_edited\<close> is broadcast to the room of the message.
\<close>

theorem edit_message_checks_owner:
  assumes "data ''message_id'' = Some mid" and "mid \<noteq> []"
    and "data ''content'' = Some c" and "c \<noteq> []"
    and "get_user_id_from_sid sid h = Some H"
  shows "((\<forall>m \<in> set (messages (db h)). m_id m = mid \<longrightarrow> m_sender_id m \<noteq> H) \<longrightarrow>
        fst (MessageService_edit_message now mid (Some H) c (db h)) = None
        \<and> edit_message now sid data h =
            h\<lparr>sio := (sio h)\<lparr>outbox := outbox (sio h) @
                 [\<lparr>ev_name = ''error'', ev_data = ErrorMessage ''Failed to edit'',
                   ev_room = Some sid, ev_skip_sid = None\<rparr>]\<rparr>\<rparr>
        \<and> db (edit_message now sid data h) = db h)
    \<and> ((\<exists>m \<in> set (messages (db h)). m_id m = mid \<and> m_sender_id m = H) \<longrightarrow>
        (\<exists>x. fst (MessageService_edit_message now mid (Some H) c (db h)) = Some x
           \<and> m_id x = mid \<and> m_content x = Some c \<and> m_is_edited x \<and> m_updated_at x = now
           \<and> x \<in> set (messages (db (edit_message now sid data h)))
           \<and> messages (db (edit_message now sid data h)) =
               map (\<lambda>m. if m_id m = mid
                         then m\<lparr>m_content := Some c, m_is_edited := True, m_updated_at := now\<rparr>
                         else m) (messages (db h))
           \<and> outbox (sio (edit_message now sid data h)) = outbox (sio h) @
                 [\<lparr>ev_name = ''message_edited'', ev_data = MessageRow x,
                   ev_room = Some (m_room_id x), ev_skip_sid = None\<rparr>]))"
proof (intro conjI impI)
  assume other: "\<forall>m \<in> set (messages (db h)). m_id m = mid \<longrightarrow> m_sender_id m \<noteq> H"
  then have "filter (\<lambda>m. m_id m = mid \<and> Some (m_sender_id m) = Some H) (messages (db h)) = []"
    by (auto simp: filter_empty_conv)
  then have none: "MessageService_edit_message now mid (Some H) c (db h) = (None, db h)"
    by (rule edit_not_owner)
  then show "fst (MessageService_edit_message now mid (Some H) c (db h)) = None" by simp
  have run: "edit_message now sid data h = emit_error sid ''Failed to edit'' h"
    using assms none by (simp add: edit_message_def falsy_def)
  show "edit_message now sid data h =
            h\<lparr>sio := (sio h)\<lparr>outbox := outbox (sio h) @
                 [\<lparr>ev_name = ''error'', ev_data = ErrorMessage ''Failed to edit'',
                   ev_room = Some sid, ev_skip_sid = None\<rparr>]\<rparr>\<rparr>"
    unfolding run by (simp add: emit_error_def emit_def sio_emit_def)
  show "db (edit_message now sid data h) = db h"
    unfolding run by (simp add: emit_error_def emit_def)
next
  let ?f = "\<lambda>m. if m_id m = mid
                 then m\<lparr>m_content := Some c, m_is_edited := True, m_updated_at := now\<rparr> else m"
  assume "\<exists>m \<in> set (messages (db h)). m_id m = mid \<and> m_sender_id m = H"
  then obtain m where "m \<in> set (messages (db h))" and "m_id m = mid" and "m_sender_id m = H"
    by blast
  then obtain y where y: "y \<in> set (messages (db h))" and yid: "m_id y = mid"
    and ed: "MessageService_edit_message now mid (Some H) c (db h) =
          (Some (y\<lparr>m_content := Some c, m_is_edited := True, m_updated_at := now\<rparr>),
           (db h)\<lparr>messages := map ?f (messages (db h))\<rparr>)"
    by (rule edit_owner)
  let ?x = "y\<lparr>m_content := Some c, m_is_edited := True, m_updated_at := now\<rparr>"
  have fy: "?f y = ?x" using yid by simp
  have "?f y \<in> ?f ` set (messages (db h))" using y by (rule imageI)
  then have xin: "?x \<in> set (map ?f (messages (db h)))" unfolding fy set_map .
  have run: "edit_message now sid data h =
      emit ''message_edited'' (MessageRow ?x) (Some (m_room_id ?x)) None
        (h\<lparr>db := (db h)\<lparr>messages := map ?f (messages (db h))\<rparr>\<rparr>)"
    using assms ed by (simp add: edit_message_def falsy_def)
  have 1: "fst (MessageService_edit_message now mid (Some H) c (db h)) = Some ?x"
    unfolding ed by simp
  have 2: "m_id ?x = mid \<and> m_content ?x = Some c \<and> m_is_edited ?x \<and> m_updated_at ?x = now"
    using yid by simp
  have 3: "messages (db (edit_message now sid data h)) = map ?f (messages (db h))"
    unfolding run by (simp add: emit_def)
  have 4: "outbox (sio (edit_message now sid data h)) = outbox (sio h) @
                 [\<lparr>ev_name = ''message_edited'', ev_data = MessageRow ?x,
                   ev_room = Some (m_room_id ?x), ev_skip_sid = None\<rparr>]"
    unfolding run by (simp add: emit_def sio_emit_def)
  have 5: "?x \<in> set (messages (db (edit_message now sid data h)))"
    unfolding 3 using xin .
  from 1 2 3 4 5
  show "\<exists>x. fst (MessageService_edit_message now mid (Some H) c (db h)) = Some x
           \<and> m_id x = mid \<and> m_content x = Some c \<and> m_is_edited x \<and> m_updated_at x = now
           \<and> x \<in> set (messages (db (edit_message now sid data h)))
           \<and> messages (db (edit_message now sid data h)) = map ?f (messages (db h))
           \<and> outbox (sio (edit_message now sid data h)) = outbox (sio h) @
                 [\<lparr>ev_name = ''message_edited'', ev_data = MessageRow x,
                   ev_room = Some (m_room_id x), ev_skip_sid = None\<rparr>]"
    by blast
qed


text \<open>
  Scenario 5: harry tries to edit gina's message M and gets the error, the row untouched;
  gina edits it, and the stored content is the new one.
\<close>

theorem edit_message_checks_owner_witness:
  "edit_message 7 ''s-harry'' [''message_id'' \<mapsto> ''M'', ''content'' \<mapsto> ''gotcha''] gina_hub =
     gina_hub\<lparr>sio := (sio gina_hub)\<lparr>outbox := outbox (sio gina_hub) @
        [\<lparr>ev_name = ''error'', ev_data = ErrorMessage ''Failed to edit'',
          ev_room = Some ''s-harry'', ev_skip_sid = None\<rparr>]\<rparr>\<rparr>
   \<and> db (edit_message 7 ''s-harry'' [''message_id'' \<mapsto> ''M'', ''content'' \<mapsto> ''gotcha'']
          gina_hub) = db gina_hub
   \<and> map m_content (messages (db (edit_message 7 ''s-gina''
          [''message_id'' \<mapsto> ''M'', ''content'' \<mapsto> ''fixed''] gina_hub))) = [Some ''fixed'']
   \<and> map m_is_edited (messages (db (edit_message 7 ''s-gina''
          [''message_id'' \<mapsto> ''M'', ''content'' \<mapsto> ''fixed''] gina_hub))) = [True]"
proof -
  have harry: "get_user_id_from_sid ''s-harry'' gina_hub = Some ''harry''"
    and gina: "get_user_id_from_sid ''s-gina'' gina_hub = Some ''gina''"
    by (simp_all add: get_user_id_from_sid_def gina_hub_def empty_hub_def)
  have rows: "messages (db gina_hub) = [demo_row ''M'' ''gina'' ''hello'']"
    by (simp add: gina_hub_def empty_hub_def empty_db_def)
  have not_harry: "\<forall>m \<in> set (messages (db gina_hub)). m_id m = ''M'' \<longrightarrow> m_sender_id m \<noteq> ''harry''"
    and is_gina: "\<exists>m \<in> set (messages (db gina_hub)). m_id m = ''M'' \<and> m_sender_id m = ''gina''"
    unfolding rows by (simp_all add: demo_row_def)
  from edit_message_checks_owner
    [where data = "[''message_id'' \<mapsto> ''M'', ''content'' \<mapsto> ''gotcha'']" and mid = "''M''"
       and c = "''gotcha''" and sid = "''s-harry''" and h = gina_hub and H = "''harry''"
       and now = 7, OF _ _ _ _ harry] not_harry
  have a: "edit_message 7 ''s-harry'' [''message_id'' \<mapsto> ''M'', ''content'' \<mapsto> ''gotcha''] gina_hub =
     gina_hub\<lparr>sio := (sio gina_hub)\<lparr>outbox := outbox (sio gina_hub) @
        [\<lparr>ev_name = ''error'', ev_data = ErrorMessage ''Failed to edit'',
          ev_room = Some ''s-harry'', ev_skip_sid = None\<rparr>]\<rparr>\<rparr>
   \<and> db (edit_message 7 ''s-harry'' [''message_id'' \<mapsto> ''M'', ''content'' \<mapsto> ''gotcha'']
          gina_hub) = db gina_hub"
    by simp
  from edit_message_checks_owner
    [where data = "[''message_id'' \<mapsto> ''M'', ''content'' \<mapsto> ''fixed'']" and mid = "''M''"
       and c = "''fixed''" and sid = "''s-gina''" and h = gina_hub and H = "''gina''"
       and now = 7, OF _ _ _ _ gina] is_gina
  have "messages (db (edit_message 7 ''s-gina''
          [''message_id'' \<mapsto> ''M'', ''content'' \<mapsto> ''fixed''] gina_hub)) =
        map (\<lambda>m. if m_id m = ''M''
                  then m\<lparr>m_content := Some ''fixed'', m_is_edited := True, m_updated_at := 7\<rparr>
                  else m) (messages (db gina_hub))"
    by auto
  then have b: "map m_content (messages (db (edit_message 7 ''s-gina''
          [''message_id'' \<mapsto> ''M'', ''content'' \<mapsto> ''fixed''] gina_hub))) = [Some ''fixed'']
   \<and> map m_is_edited (messages (db (edit_message 7 ''s-gina''
          [''message_id'' \<mapsto> ''M'', ''content'' \<mapsto> ''fixed''] gina_hub))) = [True]"
    unfolding rows by (simp add: demo_row_def)
  from a b show ?thesis by blast
qed

subsection \<open>The handshake\<close>

lemma connect_never_registers:
  "fst (connect jwt_decode now sid envrion auth h) \<noteq> Inr True"
  by (simp add: connect_def set_user_session_def json_dump_def Let_def split: option.splits)

lemma connect_valid_token_raises:
  assumes "extract_token_from_handshake (case auth of None \<Rightarrow> Map.empty | Some a \<Rightarrow> a) = Some t"
    and "t \<noteq> []" and "verify_jwt_token jwt_decode t = Some ud"
  shows "connect jwt_decode now sid envrion auth h =
    (Inl (TypeError ''dump() missing 1 required positional argument: fp''), h)"
  using assms
  by (simp add: connect_def set_user_session_def json_dump_def Let_def falsy_def)

text \<open>
  Claim C3 on the code. Alice presents a valid token while two envelopes wait in her
  queue: \<open>connect\<close> ends with the \<open>TypeError\<close> of \<open>set_user_session\<close>, before the registry,
  the presence and the drain. The hub is as before: the queue still holds both envelopes
  and nothing was emitted.
\<close>

theorem connect_raises_before_drain:
  "connect demo_jwt_decode 5 ''s1'' Map.empty (Some [''token'' \<mapsto> ''tok-alice''])
     alice_offline_hub =
     (Inl (TypeError ''dump() missing 1 required positional argument: fp''), alice_offline_hub)
   \<and> r_lrange_all (queue_tab (redis alice_offline_hub)) ''alice'' =
       [demo_envelope ''E1'' ''bob'' ''one'', demo_envelope ''E2'' ''bob'' ''two'']
   \<and> outbox (sio alice_offline_hub) = []
   \<and> connected_user alice_offline_hub = []"
proof -
  have "verify_jwt_token demo_jwt_decode ''tok-alice'' =
      Some \<lparr>ud_user_id = ''alice'', ud_email = None, ud_role = None,
            ud_payload = \<lparr>sub = Some ''alice'', email = None, role = None\<rparr>\<rparr>"
    by (simp add: verify_jwt_token_def demo_jwt_decode_def falsy_def)
  then have "connect demo_jwt_decode 5 ''s1'' Map.empty (Some [''token'' \<mapsto> ''tok-alice''])
     alice_offline_hub =
     (Inl (TypeError ''dump() missing 1 required positional argument: fp''), alice_offline_hub)"
    by (intro connect_valid_token_raises [where t = "''tok-alice''"])
      (simp_all add: extract_token_from_handshake_def)
  then show ?thesis
    by (simp add: alice_offline_hub_def empty_hub_def empty_redis_def empty_sio_def
        r_lrange_all_def)
qed

text \<open>
  Claim C10 on the code. While alice is offline the envelope E1 and then E2 are queued
  for her: the list of \<^verbatim>\<open>queue:alice\<close> holds E2 before E1. Alice then presents a valid
  token: \<open>connect\<close> ends with the \<open>TypeError\<close> of \<open>set_user_session\<close> before it reaches the
  drain, so neither envelope is emitted, in any order, and the list is as it was.
\<close>

theorem connect_raises_before_ordered_drain:
  "r_lrange_all (queue_tab (redis alice_queued_hub)) ''alice'' =
     [demo_envelope ''E2'' ''bob'' ''two'', demo_envelope ''E1'' ''bob'' ''one'']
   \<and> outbox (sio alice_queued_hub) = []
   \<and> connect demo_jwt_decode 5 ''s1'' Map.empty (Some [''token'' \<mapsto> ''tok-alice''])
       alice_queued_hub =
       (Inl (TypeError ''dump() missing 1 required positional argument: fp''), alice_queued_hub)
   \<and> outbox (sio (snd (connect demo_jwt_decode 5 ''s1'' Map.empty
         (Some [''token'' \<mapsto> ''tok-alice'']) alice_queued_hub))) = []
   \<and> r_lrange_all (queue_tab (redis (snd (connect demo_jwt_decode 5 ''s1'' Map.empty
         (Some [''token'' \<mapsto> ''tok-alice'']) alice_queued_hub)))) ''alice'' =
       [demo_envelope ''E2'' ''bob'' ''two'', demo_envelope ''E1'' ''bob'' ''one'']"
proof -
  have "verify_jwt_token demo_jwt_decode ''tok-alice'' =
      Some \<lparr>ud_user_id = ''alice'', ud_email = None, ud_role = None,
            ud_payload = \<lparr>sub = Some ''alice'', email = None, role = None\<rparr>\<rparr>"
    by (simp add: verify_jwt_token_def demo_jwt_decode_def falsy_def)
  then have run: "connect demo_jwt_decode 5 ''s1'' Map.empty (Some [''token'' \<mapsto> ''tok-alice''])
     alice_queued_hub =
     (Inl (TypeError ''dump() missing 1 required positional argument: fp''), alice_queued_hub)"
    by (intro connect_valid_token_raises [where t = "''tok-alice''"])
      (simp_all add: extract_token_from_handshake_def)
  have queue: "r_lrange_all (queue_tab (redis alice_queued_hub)) ''alice'' =
     [demo_envelope ''E2'' ''bob'' ''two'', demo_envelope ''E1'' ''bob'' ''one'']"
    by (simp add: alice_queued_hub_def empty_hub_def empty_redis_def queue_message_def
        default_settings_def r_lpush_def r_expire_def r_lrange_all_def)
  have box: "outbox (sio alice_queued_hub) = []"
    by (simp add: alice_queued_hub_def empty_hub_def empty_sio_def)
  show ?thesis unfolding run snd_conv using queue box by simp
qed

lemma extract_token_order:
  "extract_token_from_handshake auth_data =
     (if auth_data ''token'' \<noteq> None then auth_data ''token''
      else if auth_data ''Authorization'' = None then None
      else if take 7 (the (auth_data ''Authorization'')) = ''Bearer ''
      then Some (drop 7 (the (auth_data ''Authorization'')))
      else None)"
  by (simp add: extract_token_from_handshake_def split: option.splits)

text \<open>
  Claim C7 on the code. The handshake carries alice's valid token as the query parameter
  \<^verbatim>\<open>token\<close> and no auth payload: no token is extracted, the connection is closed and the
  handler returns false. The same token in the auth payload is extracted, and so is the
  token after \<^verbatim>\<open>Bearer \<close> in an \<^verbatim>\<open>Authorization\<close> entry of the payload.
\<close>

theorem connect_ignores_query_token:
  "connect demo_jwt_decode 5 ''s1'' [''QUERY_STRING'' \<mapsto> ''token=tok-alice''] None empty_hub =
     (Inr False, empty_hub\<lparr>sio := (sio empty_hub)\<lparr>disconnected := [''s1'']\<rparr>\<rparr>)
   \<and> extract_token_from_handshake Map.empty = None
   \<and> extract_token_from_handshake [''token'' \<mapsto> ''tok-alice''] = Some ''tok-alice''
   \<and> extract_token_from_handshake [''Authorization'' \<mapsto> ''Bearer tok-alice''] = Some ''tok-alice''
   \<and> extract_token_from_handshake
        [''token'' \<mapsto> ''tok-alice'', ''Authorization'' \<mapsto> ''Bearer other''] = Some ''tok-alice''"
  by (simp add: connect_def extract_token_from_handshake_def falsy_def sio_disconnect_def
      empty_hub_def empty_sio_def)

subsection \<open>Transport close\<close>

lemma disconnect_registered_raises:
  assumes "get_user_id_from_sid sid h = Some uid"
  shows "disconnect now sid h =
    (Inl (AttributeError ''list object has no attribute romove''), h)"
  using assms
  by (auto simp: disconnect_def get_user_id_from_sid_def list_romove_def split: option.splits)

text \<open>
  Claim C9 on the code. Alice's only connection s1 closes: \<open>disconnect\<close> ends with the
  \<open>AttributeError\<close> of the removal. The hub is as before: s1 is still in the registry, the
  session mirror and the presence key are still there, and no \<open>user_offline\<close> was emitted.
\<close>

theorem disconnect_raises_before_detach:
  "disconnect 9 ''s1'' alice_online_hub =
     (Inl (AttributeError ''list object has no attribute romove''), alice_online_hub)
   \<and> connected_user alice_online_hub = [(''alice'', [''s1''])]
   \<and> r_exists (session_tab (redis alice_online_hub)) (''alice'', ''s1'')
   \<and> is_user_online ''alice'' (redis alice_online_hub)
   \<and> outbox (sio alice_online_hub) = []"
  by (simp add: disconnect_def list_romove_def alice_online_hub_def empty_hub_def empty_redis_def
      empty_sio_def r_exists_def is_user_online_def)


subsection \<open>Notifying offline members\<close>

lemma create_notification_inserts_nothing:
  "create_notification user_id title body notification_type reference_id d = (None, d)"
  by (simp add: create_notification_def request_data_def)

lemma notify_members_keeps_db: "db (notify_members message members h) = db h"
  by (induction members arbitrary: h) (simp_all add: create_notification_inserts_nothing)

lemma notify_offline_members_keeps_db:
  "db (notify_offline_members room sender_id message h) = db h"
  by (simp add: notify_offline_members_def notify_members_keeps_db)

lemma create_message_without_profile_relation:
  assumes "profile d = None"
  shows "fst (create_message new_id now room sender content message_type reply_to d) = None
    \<and> length (messages (snd (create_message new_id now room sender content message_type
          reply_to d))) = Suc (length (messages d))"
  using assms by (simp add: create_message_def Let_def)

text \<open>
  Claim C2 on the code. Scenario 4: eve, online, sends \<^verbatim>\<open>hello\<close> to room R, whose other
  member frank has no presence key. The envelope is pushed on \<^verbatim>\<open>queue:frank\<close> and the
  message is broadcast to the room, but the table of notifications is still empty: the
  insert of \<open>create_notification\<close> is never executed.
\<close>

theorem offline_member_gets_no_notification:
  "map (\<lambda>e. (m_id (e_row e), m_content (e_row e)))
      (r_lrange_all (queue_tab (redis (send_message ''m1'' 3 ''s-eve''
         [''room_id'' \<mapsto> ''R'', ''content'' \<mapsto> ''hello''] eve_frank_hub))) ''frank'') =
     [(''m1'', Some ''hello'')]
   \<and> map ev_name (outbox (sio (send_message ''m1'' 3 ''s-eve''
         [''room_id'' \<mapsto> ''R'', ''content'' \<mapsto> ''hello''] eve_frank_hub))) = [''message'']
   \<and> map m_id (messages (db (send_message ''m1'' 3 ''s-eve''
         [''room_id'' \<mapsto> ''R'', ''content'' \<mapsto> ''hello''] eve_frank_hub))) = [''m1'']
   \<and> notifications (db (send_message ''m1'' 3 ''s-eve''
         [''room_id'' \<mapsto> ''R'', ''content'' \<mapsto> ''hello''] eve_frank_hub)) = []
   \<and> r_lrange_all (queue_tab (redis (notify_offline_members ''R'' ''eve''
         (demo_envelope ''m1'' ''eve'' ''hello'') eve_frank_hub))) ''frank'' =
       [demo_envelope ''m1'' ''eve'' ''hello'']
   \<and> notifications (db (notify_offline_members ''R'' ''eve''
         (demo_envelope ''m1'' ''eve'' ''hello'') eve_frank_hub)) = []"
  by (simp add: send_message_def notify_offline_members_def create_notification_def
      request_data_def create_message_def check_room_membership_def check_rate_limit_def
      check_rate_limit_get_def check_rate_limit_rest_def
      get_cached_room_members_def cache_room_members_def get_user_id_from_sid_def
      queue_message_def is_user_online_def emit_def sio_emit_def falsy_def
      r_get_def r_setex_def r_exists_def r_lpush_def r_expire_def r_lrange_all_def r_delete_def
      r_sadd_def eve_frank_hub_def empty_hub_def empty_redis_def empty_db_def empty_sio_def
      default_settings_def demo_envelope_def demo_row_def Let_def)


subsection \<open>Payloads that lack a required field\<close>

lemma emit_error_outbox:
  "emit_error sid msg h =
     h\<lparr>sio := (sio h)\<lparr>outbox := outbox (sio h) @
        [\<lparr>ev_name = ''error'', ev_data = ErrorMessage msg, ev_room = Some sid,
          ev_skip_sid = None\<rparr>]\<rparr>\<rparr>"
  by (simp add: emit_error_def emit_def sio_emit_def)

lemma check_room_membership_keeps_sio:
  "sio (snd (check_room_membership user room h)) = sio h
   \<and> connected_user (snd (check_room_membership user room h)) = connected_user h"
  by (simp add: check_room_membership_def Let_def split: option.splits)

lemma check_room_membership_sio:
  "check_room_membership user room h = (b, h1) \<Longrightarrow> sio h1 = sio h"
  using check_room_membership_keeps_sio [of user room h] by simp

lemma notify_members_keeps_sio:
  "sio (notify_members message members h) = sio h
   \<and> connected_user (notify_members message members h) = connected_user h"
  by (induction members arbitrary: h) (simp_all add: create_notification_inserts_nothing)

lemma emit_keeps_connections:
  "disconnected (sio (emit name d room skip h)) = disconnected (sio h)
   \<and> connected_user (emit name d room skip h) = connected_user h"
  by (simp add: emit_def sio_emit_def)

lemma handlers_keep_connections:
  "disconnected (sio (join_room sid data h)) = disconnected (sio h)"
  "disconnected (sio (leave_room sid data h)) = disconnected (sio h)"
  "disconnected (sio (send_message new_id now sid data h)) = disconnected (sio h)"
  "disconnected (sio (edit_message now sid data h)) = disconnected (sio h)"
  "disconnected (sio (delete_message now sid data h)) = disconnected (sio h)"
  "disconnected (sio (typing_start sid data h)) = disconnected (sio h)"
  "disconnected (sio (typing_stop sid data h)) = disconnected (sio h)"
  "disconnected (sio (update_status now sid data h)) = disconnected (sio h)"
proof -
  show "disconnected (sio (join_room sid data h)) = disconnected (sio h)"
    by (auto simp: join_room_def Let_def emit_error_def emit_def sio_emit_def sio_enter_room_def
        split: prod.splits dest: check_room_membership_sio)
  show "disconnected (sio (leave_room sid data h)) = disconnected (sio h)"
    by (simp add: leave_room_def Let_def emit_def sio_emit_def sio_leave_room_def)
  show "disconnected (sio (send_message new_id now sid data h)) = disconnected (sio h)"
    by (auto simp: send_message_def Let_def emit_error_def emit_def sio_emit_def
        notify_offline_members_def notify_members_keeps_sio
        split: prod.splits option.splits sum.splits dest: check_room_membership_sio)
  show "disconnected (sio (edit_message now sid data h)) = disconnected (sio h)"
    by (simp add: edit_message_def Let_def emit_error_def emit_def sio_emit_def
        split: prod.splits option.splits)
  show "disconnected (sio (delete_message now sid data h)) = disconnected (sio h)"
    by (simp add: delete_message_def Let_def emit_error_def emit_def sio_emit_def
        split: prod.splits option.splits)
  show "disconnected (sio (typing_start sid data h)) = disconnected (sio h)"
    by (simp add: typing_start_def Let_def emit_def sio_emit_def)
  show "disconnected (sio (typing_stop sid data h)) = disconnected (sio h)"
    by (simp add: typing_stop_def Let_def emit_def sio_emit_def)
  show "disconnected (sio (update_status now sid data h)) = disconnected (sio h)"
    by (simp add: update_status_def Let_def emit_error_def emit_def sio_emit_def
        PresenceService_update_status_def)
qed

text \<open>
  Claim C8, as the code has it. When \<^verbatim>\<open>room_id\<close> is missing or empty, \<open>join_room\<close> and
  \<open>send_message\<close> emit the error \<^verbatim>\<open>room_id required\<close>, while \<open>leave_room\<close>, \<open>typing_start\<close>
  and \<open>typing_stop\<close> return at once and leave the hub as it is, with nothing emitted. When
  \<^verbatim>\<open>message_id\<close> is missing or empty, \<open>edit_message\<close> and \<open>delete_message\<close> emit their
  errors, and so does \<open>edit_message\<close> when \<^verbatim>\<open>content\<close> is. \<open>update_status\<close> never misses its
  field: an absent \<^verbatim>\<open>status\<close> is read as \<^verbatim>\<open>online\<close>, and a status outside the four
  allowed values, and no other, gives the error \<^verbatim>\<open>Invalid status\<close>. Each error is one \<open>error\<close> event with
  the message, to the room of the originating sid, and the registry is untouched by it.
  No handler closes a connection, whatever the payload.
\<close>

theorem missing_field_handling:
  "(falsy (data ''room_id'') \<longrightarrow>
      join_room sid data h = emit_error sid ''room_id required'' h
      \<and> send_message new_id now sid data h = emit_error sid ''room_id required'' h
      \<and> leave_room sid data h = h
      \<and> typing_start sid data h = h
      \<and> typing_stop sid data h = h)
   \<and> (falsy (data ''message_id'') \<longrightarrow>
      edit_message now sid data h = emit_error sid ''message_id and content required'' h
      \<and> delete_message now sid data h = emit_error sid ''message_id required'' h)
   \<and> (falsy (data ''content'') \<longrightarrow>
      edit_message now sid data h = emit_error sid ''message_id and content required'' h)
   \<and> (data ''status'' = None \<longrightarrow>
      update_status now sid data h = update_status now sid (data(''status'' \<mapsto> ''online'')) h)
   \<and> (data ''status'' = Some s \<and> \<not> valid_status s \<longrightarrow>
      update_status now sid data h = emit_error sid ''Invalid status'' h)
   \<and> (data ''status'' = None \<or> data ''status'' = Some s \<and> valid_status s \<longrightarrow>
      filter (\<lambda>e. ev_name e = ''error'') (outbox (sio (update_status now sid data h))) =
      filter (\<lambda>e. ev_name e = ''error'') (outbox (sio h)))
   \<and> emit_error sid msg h =
       h\<lparr>sio := (sio h)\<lparr>outbox := outbox (sio h) @
          [\<lparr>ev_name = ''error'', ev_data = ErrorMessage msg, ev_room = Some sid,
            ev_skip_sid = None\<rparr>]\<rparr>\<rparr>
   \<and> disconnected (sio (emit_error sid msg h)) = disconnected (sio h)
   \<and> connected_user (emit_error sid msg h) = connected_user h
   \<and> disconnected (sio (join_room sid data h)) = disconnected (sio h)
   \<and> disconnected (sio (leave_room sid data h)) = disconnected (sio h)
   \<and> disconnected (sio (send_message new_id now sid data h)) = disconnected (sio h)
   \<and> disconnected (sio (edit_message now sid data h)) = disconnected (sio h)
   \<and> disconnected (sio (delete_message now sid data h)) = disconnected (sio h)
   \<and> disconnected (sio (typing_start sid data h)) = disconnected (sio h)
   \<and> disconnected (sio (typing_stop sid data h)) = disconnected (sio h)
   \<and> disconnected (sio (update_status now sid data h)) = disconnected (sio h)"
proof (intro conjI impI)
  assume "falsy (data ''room_id'')"
  then show "join_room sid data h = emit_error sid ''room_id required'' h"
    and "send_message new_id now sid data h = emit_error sid ''room_id required'' h"
    and "leave_room sid data h = h"
    and "typing_start sid data h = h"
    and "typing_stop sid data h = h"
    by (simp_all add: join_room_def send_message_def leave_room_def typing_start_def
        typing_stop_def)
next
  assume "falsy (data ''message_id'')"
  then show "edit_message now sid data h = emit_error sid ''message_id and content required'' h"
    and "delete_message now sid data h = emit_error sid ''message_id required'' h"
    by (simp_all add: edit_message_def delete_message_def)
next
  assume "falsy (data ''content'')"
  then show "edit_message now sid data h = emit_error sid ''message_id and content required'' h"
    by (simp add: edit_message_def)
next
  assume "data ''status'' = None"
  then show "update_status now sid data h =
      update_status now sid (data(''status'' \<mapsto> ''online'')) h"
    by (simp add: update_status_def)
next
  assume "data ''status'' = Some s \<and> \<not> valid_status s"
  then show "update_status now sid data h = emit_error sid ''Invalid status'' h"
    by (simp add: update_status_def)
next
  assume "data ''status'' = None \<or> data ''status'' = Some s \<and> valid_status s"
  then show "filter (\<lambda>e. ev_name e = ''error'') (outbox (sio (update_status now sid data h))) =
      filter (\<lambda>e. ev_name e = ''error'') (outbox (sio h))"
    by (auto simp: update_status_def valid_status_def emit_def sio_emit_def
        PresenceService_update_status_def Let_def)
next
  show "emit_error sid msg h =
       h\<lparr>sio := (sio h)\<lparr>outbox := outbox (sio h) @
          [\<lparr>ev_name = ''error'', ev_data = ErrorMessage msg, ev_room = Some sid,
            ev_skip_sid = None\<rparr>]\<rparr>\<rparr>"
    by (rule emit_error_outbox)
  show "disconnected (sio (emit_error sid msg h)) = disconnected (sio h)"
    and "connected_user (emit_error sid msg h) = connected_user h"
    by (simp_all add: emit_error_outbox)
  show "disconnected (sio (join_room sid data h)) = disconnected (sio h)"
    and "disconnected (sio (leave_room sid data h)) = disconnected (sio h)"
    and "disconnected (sio (send_message new_id now sid data h)) = disconnected (sio h)"
    and "disconnected (sio (edit_message now sid data h)) = disconnected (sio h)"
    and "disconnected (sio (delete_message now sid data h)) = disconnected (sio h)"
    and "disconnected (sio (typing_start sid data h)) = disconnected (sio h)"
    and "disconnected (sio (typing_stop sid data h)) = disconnected (sio h)"
    and "disconnected (sio (update_status now sid data h)) = disconnected (sio h)"
    by (rule handlers_keep_connections)+
qed

text \<open>
  Gina's connection sends each event with an empty payload, and \<open>update_status\<close> with the
  status \<^verbatim>\<open>asleep\<close>.
\<close>

theorem missing_field_handling_witness:
  "join_room ''s-gina'' Map.empty gina_hub = emit_error ''s-gina'' ''room_id required'' gina_hub
   \<and> send_message ''m2'' 4 ''s-gina'' Map.empty gina_hub =
       emit_error ''s-gina'' ''room_id required'' gina_hub
   \<and> leave_room ''s-gina'' Map.empty gina_hub = gina_hub
   \<and> typing_start ''s-gina'' Map.empty gina_hub = gina_hub
   \<and> typing_stop ''s-gina'' Map.empty gina_hub = gina_hub
   \<and> edit_message 4 ''s-gina'' Map.empty gina_hub =
       emit_error ''s-gina'' ''message_id and content required'' gina_hub
   \<and> delete_message 4 ''s-gina'' Map.empty gina_hub =
       emit_error ''s-gina'' ''message_id required'' gina_hub
   \<and> update_status 4 ''s-gina'' Map.empty gina_hub =
       update_status 4 ''s-gina'' [''status'' \<mapsto> ''online''] gina_hub
   \<and> update_status 4 ''s-gina'' [''status'' \<mapsto> ''asleep''] gina_hub =
       emit_error ''s-gina'' ''Invalid status'' gina_hub
   \<and> outbox (sio (emit_error ''s-gina'' ''room_id required'' gina_hub)) =
       [\<lparr>ev_name = ''error'', ev_data = ErrorMessage ''room_id required'',
         ev_room = Some ''s-gina'', ev_skip_sid = None\<rparr>]"
proof -
  have empty: "falsy (Map.empty ''room_id'')" "falsy (Map.empty ''message_id'')"
    "(Map.empty :: pydict) ''status'' = None"
    by (simp_all add: falsy_def)
  have asleep: "[''status'' \<mapsto> ''asleep''] ''status'' = Some ''asleep'' \<and> \<not> valid_status ''asleep''"
    by (simp add: valid_status_def)
  have box: "outbox (sio gina_hub) = []"
    by (simp add: gina_hub_def empty_hub_def empty_sio_def)
  note a = missing_field_handling
    [where data = Map.empty and sid = "''s-gina''" and h = gina_hub and new_id = "''m2''"
       and now = 4 and msg = "''room_id required''"]
  note b = missing_field_handling
    [where data = "[''status'' \<mapsto> ''asleep'']" and sid = "''s-gina''" and h = gina_hub
       and now = 4 and s = "''asleep''"]
  from a empty have 1: "join_room ''s-gina'' Map.empty gina_hub =
        emit_error ''s-gina'' ''room_id required'' gina_hub
   \<and> send_message ''m2'' 4 ''s-gina'' Map.empty gina_hub =
       emit_error ''s-gina'' ''room_id required'' gina_hub
   \<and> leave_room ''s-gina'' Map.empty gina_hub = gina_hub
   \<and> typing_start ''s-gina'' Map.empty gina_hub = gina_hub
   \<and> typing_stop ''s-gina'' Map.empty gina_hub = gina_hub
   \<and> edit_message 4 ''s-gina'' Map.empty gina_hub =
       emit_error ''s-gina'' ''message_id and content required'' gina_hub
   \<and> delete_message 4 ''s-gina'' Map.empty gina_hub =
       emit_error ''s-gina'' ''message_id required'' gina_hub
   \<and> update_status 4 ''s-gina'' Map.empty gina_hub =
       update_status 4 ''s-gina'' [''status'' \<mapsto> ''online''] gina_hub"
    by blast
  from b asleep have 2: "update_status 4 ''s-gina'' [''status'' \<mapsto> ''asleep''] gina_hub =
       emit_error ''s-gina'' ''Invalid status'' gina_hub"
    by blast
  from a have "emit_error ''s-gina'' ''room_id required'' gina_hub =
       gina_hub\<lparr>sio := (sio gina_hub)\<lparr>outbox := outbox (sio gina_hub) @
          [\<lparr>ev_name = ''error'', ev_data = ErrorMessage ''room_id required'',
            ev_room = Some ''s-gina'', ev_skip_sid = None\<rparr>]\<rparr>\<rparr>"
    by blast
  then have 3: "outbox (sio (emit_error ''s-gina'' ''room_id required'' gina_hub)) =
       [\<lparr>ev_name = ''error'', ev_data = ErrorMessage ''room_id required'',
         ev_room = Some ''s-gina'', ev_skip_sid = None\<rparr>]"
    using box by simp
  from 1 2 3 show ?thesis by blast
qed

text \<open>
  Gina's connection sends \<open>leave_room\<close>, \<open>typing_start\<close> and \<open>typing_stop\<close> without
  \<^verbatim>\<open>room_id\<close>: nothing is emitted. It sends \<open>update_status\<close> without \<^verbatim>\<open>status\<close>: the only event
  emitted is \<^verbatim>\<open>user_status_changed\<close>, with the status \<^verbatim>\<open>online\<close>.
\<close>

theorem silent_handlers_counterexample:
  "outbox (sio (leave_room ''s-gina'' Map.empty gina_hub)) = []
   \<and> outbox (sio (typing_start ''s-gina'' Map.empty gina_hub)) = []
   \<and> outbox (sio (typing_stop ''s-gina'' Map.empty gina_hub)) = []
   \<and> outbox (sio (update_status 4 ''s-gina'' Map.empty gina_hub)) =
       [\<lparr>ev_name = ''user_status_changed'', ev_data = UserStatus ''gina'' ''online'',
         ev_room = None, ev_skip_sid = Some ''s-gina''\<rparr>]"
  by (simp add: leave_room_def typing_start_def typing_stop_def update_status_def falsy_def
      valid_status_def get_user_id_from_sid_def PresenceService_update_status_def emit_def
      sio_emit_def gina_hub_def empty_hub_def empty_sio_def Let_def)

end
